theory Spec2Isabelle
  imports Main
begin

section \<open>Values, errors and the environment of the template tags\<close>

text \<open>
  The exceptions that the tag code can raise or let through.  \<open>DoesNotExist\<close> is the
  model's own not-found signal (\<^verbatim>\<open>FreeText.DoesNotExist\<close>); the others are Python
  and Django exceptions.
\<close>

datatype error =
    TemplateSyntaxError
  | IndexError
  | ValueError
  | TypeError
  | OverflowError
  | VariableDoesNotExist
  | DoesNotExist
  | MultipleObjectsReturned
  | TemplateDoesNotExist
  | IntegrityError

text \<open>
  Python values that a variable of a template can resolve to: a string, an integer, the
  number that a literal token spells (\<open>PyNum\<close>, kept as its text), \<^verbatim>\<open>None\<close>, or
  some other object.  They are data: none of them is callable.
\<close>

datatype pyval = PyStr string | PyInt int | PyNum string | PyNone | PyObj nat

text \<open>
  The render context, as \<^verbatim>\<open>render\<close> and \<^verbatim>\<open>template.Variable\<close> see it.
  \<open>entries\<close> are the names bound in its dictionaries (\<^verbatim>\<open>name in context\<close>,
  \<^verbatim>\<open>context[name]\<close>).  \<open>other_lookups\<close> is what Django's lookup of a path of
  names gives where the path is not one name bound in the dictionaries: attributes of the
  context object, members and indices of the values, calls; the value, or the exception
  the lookup raises.  \<open>gettext\<close> is the translation that is active during the render,
  applied to the value of a variable written \<^verbatim>\<open>_(...)\<close>.
\<close>

record Context =
  entries :: "string \<rightharpoonup> pyval"
  other_lookups :: "string list \<Rightarrow> error + pyval"
  gettext :: "pyval \<Rightarrow> error + pyval"

text \<open>
  Modelled from the spec: the content record (section 3 of the specification).  The model
  classes (\<^verbatim>\<open>free_text/models.py\<close>, \<^verbatim>\<open>flatblocks/models.py\<close>) are not among the
  sources; the tag code only reads \<^verbatim>\<open>c.content\<close> and queries by \<^verbatim>\<open>slug\<close>.
\<close>

record block =
  block_slug :: string
  block_header :: string
  block_content :: string

text \<open>
  The external calls that a render or a save makes, in the order it makes them.
\<close>

datatype event =
    CacheGet string
  | CacheSet string block int
  | CacheDelete string
  | StoreGet string
  | StoreSave block
  | StoreDelete string
  | GetTemplate string

text \<open>
  The shared cache maps a key to the stored object and the timeout it was stored with;
  the store is the table of records.  Expiry of cache entries is not modelled: no time
  passes inside a render.
\<close>

record world =
  cache :: "string \<rightharpoonup> block \<times> int"
  store :: "block list"
  log :: "event list"

text \<open>
  The sub-context handed to the presentation template: \<^verbatim>\<open>RequestContext(request, {})\<close>
  or \<^verbatim>\<open>Context({})\<close>, updated with \<^verbatim>\<open>{'freetext': c}\<close>.
\<close>

record sub_ctx =
  sc_request :: "pyval option"
  sc_record :: block

text \<open>
  The host template loader: a template name is either unknown or gives a compiled template,
  a function from the sub-context to the rendered text (or an error of its own).
\<close>

type_synonym loader = "string \<rightharpoonup> (sub_ctx \<Rightarrow> error + string)"

section \<open>Python's \<^verbatim>\<open>int()\<close> on a token\<close>

text \<open>
  \<^verbatim>\<open>self.cache_time\<close> is the integer \<^verbatim>\<open>0\<close> (two tokens) or the raw third token
  (a string); \<^verbatim>\<open>int(self.cache_time)\<close> is only applied in \<^verbatim>\<open>render\<close>.
\<close>

datatype cache_time_arg = CtInt int | CtTok string

definition is_space :: "char \<Rightarrow> bool" where
  "is_space c = (c \<in> set [CHR '' '', CHR 0x09, CHR 0x0A, CHR 0x0B, CHR 0x0C, CHR 0x0D])"

definition strip :: "string \<Rightarrow> string" where
  "strip s = rev (dropWhile is_space (rev (dropWhile is_space s)))"

definition digit_of :: "char \<Rightarrow> nat option" where
  "digit_of c = (let k = (of_char c :: nat) in if 48 \<le> k \<and> k \<le> 57 then Some (k - 48) else None)"

fun digits_val :: "string \<Rightarrow> nat \<Rightarrow> nat option" where
  "digits_val [] acc = Some acc"
| "digits_val (c # cs) acc =
     (case digit_of c of None \<Rightarrow> None | Some d \<Rightarrow> digits_val cs (10 * acc + d))"

text \<open>
  \<^verbatim>\<open>int(s)\<close> for a string of ASCII characters, base 10: surrounding whitespace
  is ignored, one sign is allowed, then at least one decimal digit and nothing else;
  anything else raises \<^verbatim>\<open>ValueError\<close>.
\<close>

definition int_of_token :: "string \<Rightarrow> error + int" where
  "int_of_token s =
     (case strip s of
        [] \<Rightarrow> Inl ValueError
      | c # cs \<Rightarrow>
          (let neg = (c = CHR ''-'');
               ds = (if c = CHR ''-'' \<or> c = CHR ''+'' then cs else c # cs)
           in if ds = [] then Inl ValueError
              else (case digits_val ds 0 of
                      None \<Rightarrow> Inl ValueError
                    | Some n \<Rightarrow> Inr (if neg then - int n else int n))))"

definition py_int :: "cache_time_arg \<Rightarrow> error + int" where
  "py_int a = (case a of CtInt n \<Rightarrow> Inr n | CtTok s \<Rightarrow> int_of_token s)"

section \<open>The tag parser of \<^verbatim>\<open>freetext.py\<close>\<close>

definition CACHE_PREFIX :: string where
  "CACHE_PREFIX = ''freetext_''"

text \<open>
  \<^verbatim>\<open>slug[0] == slug[-1] and slug[0] in ('"', "'")\<close>, for a non-empty token.
\<close>

definition is_quoted :: "string \<Rightarrow> bool" where
  "is_quoted s = (hd s = last s \<and> (hd s = CHR 0x22 \<or> hd s = CHR 0x27))"

text \<open>\<^verbatim>\<open>slug[1:-1]\<close>.\<close>

definition unquote :: "string \<Rightarrow> string" where
  "unquote s = butlast (tl s)"

text \<open>
  The attributes that \<^verbatim>\<open>prepare\<close> leaves on the wrapper: \<^verbatim>\<open>(slug, is_variable,
  cache_time)\<close>.
\<close>

type_synonym prepared = "string \<times> bool \<times> cache_time_arg"

text \<open>
  The part of \<^verbatim>\<open>prepare\<close> after the token count is known (lines 55 to 60);
  \<^verbatim>\<open>slug[0]\<close> of an empty token raises \<^verbatim>\<open>IndexError\<close>.
\<close>

definition check_slug :: "string \<Rightarrow> cache_time_arg \<Rightarrow> error + prepared" where
  "check_slug sl ct =
     (if sl = [] then Inl IndexError
      else if \<not> is_quoted sl then Inr (sl, True, ct)
      else Inr (unquote sl, False, ct))"

text \<open>
  \<^verbatim>\<open>BasicFreeTextWrapper.prepare\<close>, on the result of \<^verbatim>\<open>token.split_contents()\<close>.
  With no token at all, building the error message reads \<^verbatim>\<open>tokens[0]\<close> and raises
  \<^verbatim>\<open>IndexError\<close> instead.
\<close>

fun prepare :: "string list \<Rightarrow> error + prepared" where
  "prepare [] = Inl IndexError"
| "prepare [tag_name] = Inl TemplateSyntaxError"
| "prepare [tag_name, sl] = check_slug sl (CtInt 0)"
| "prepare [tag_name, sl, ct] = check_slug sl (CtTok ct)"
| "prepare (tag_name # sl # ct # t # ts) = Inl TemplateSyntaxError"

record FreeTextNode =
  slug :: string
  is_variable :: bool
  cache_time :: cache_time_arg
  with_template :: bool

definition mk_node :: "bool \<Rightarrow> prepared \<Rightarrow> FreeTextNode" where
  "mk_node wt p =
     (case p of (s, v, ct) \<Rightarrow>
        \<lparr>slug = s, is_variable = v, cache_time = ct, with_template = wt\<rparr>)"

text \<open>\<^verbatim>\<open>BasicFreeTextWrapper.__call__\<close> and \<^verbatim>\<open>PlainFreeTextWrapper.__call__\<close>.\<close>

definition do_get_freetext :: "string list \<Rightarrow> error + FreeTextNode" where
  "do_get_freetext tokens = map_sum id (mk_node True) (prepare tokens)"

definition do_plain_freetext :: "string list \<Rightarrow> error + FreeTextNode" where
  "do_plain_freetext tokens = map_sum id (mk_node False) (prepare tokens)"

section \<open>The render node of \<^verbatim>\<open>freetext.py\<close>\<close>

text \<open>
  \<^verbatim>\<open>template.Variable\<close> is Django's.  Its constructor reads the token: a number
  literal, a string literal, or a path of names separated by dots.  The model follows the
  constructor of the Django releases that refuse names with a leading underscore.
\<close>

definition is_digit :: "char \<Rightarrow> bool" where
  "is_digit c = (digit_of c \<noteq> None)"

definition lower :: "char \<Rightarrow> char" where
  "lower c =
     (case map_of (zip ''ABCDEFGHIJKLMNOPQRSTUVWXYZ'' ''abcdefghijklmnopqrstuvwxyz'') c of
        None \<Rightarrow> c
      | Some l \<Rightarrow> l)"

definition unsigned :: "string \<Rightarrow> string" where
  "unsigned s =
     (case s of [] \<Rightarrow> [] | c # cs \<Rightarrow> if c = CHR ''-'' \<or> c = CHR ''+'' then cs else s)"

text \<open>Digits with at most one point and at least one digit.\<close>

definition mantissa_ok :: "string \<Rightarrow> bool" where
  "mantissa_ok m =
     (case dropWhile is_digit m of
        [] \<Rightarrow> takeWhile is_digit m \<noteq> []
      | c # fp \<Rightarrow>
          c = CHR ''.'' \<and> list_all is_digit fp \<and> (takeWhile is_digit m \<noteq> [] \<or> fp \<noteq> []))"

definition exponent_ok :: "string \<Rightarrow> bool" where
  "exponent_ok x = (unsigned x \<noteq> [] \<and> list_all is_digit (unsigned x))"

definition is_e :: "char \<Rightarrow> bool" where
  "is_e c = (c = CHR ''e'' \<or> c = CHR ''E'')"

definition decimal_ok :: "string \<Rightarrow> bool" where
  "decimal_ok b =
     (mantissa_ok (takeWhile (\<lambda>c. \<not> is_e c) b)
      \<and> (case dropWhile (\<lambda>c. \<not> is_e c) b of [] \<Rightarrow> True | e # x \<Rightarrow> exponent_ok x))"

text \<open>
  What \<^verbatim>\<open>float(s)\<close> makes of an ASCII string: surrounding whitespace is ignored, one sign
  is allowed, then \<^verbatim>\<open>inf\<close>, \<^verbatim>\<open>infinity\<close> or \<^verbatim>\<open>nan\<close> in any case, or a
  decimal number with an optional exponent; anything else raises \<^verbatim>\<open>ValueError\<close>.
\<close>

datatype float_kind = NotFloat | Finite | Infinite | NaN

definition py_float_kind :: "string \<Rightarrow> float_kind" where
  "py_float_kind s =
     (let b = unsigned (strip s); l = map lower b in
      if l = ''inf'' \<or> l = ''infinity'' then Infinite
      else if l = ''nan'' then NaN
      else if decimal_ok b then Finite
      else NotFloat)"

text \<open>
  The \<^verbatim>\<open>try\<close> block of the constructor: \<^verbatim>\<open>float(var)\<close>; without a point and
  without an \<^verbatim>\<open>e\<close> the float is converted with \<^verbatim>\<open>int\<close>, which raises
  \<^verbatim>\<open>OverflowError\<close> on an infinity and \<^verbatim>\<open>ValueError\<close> on a NaN; a token that
  ends with a point raises \<^verbatim>\<open>ValueError\<close>.
\<close>

definition number_literal :: "string \<Rightarrow> error + pyval" where
  "number_literal var =
     (let integral = (CHR ''.'' \<notin> set var \<and> CHR ''e'' \<notin> set (map lower var)) in
      case py_float_kind var of
        NotFloat \<Rightarrow> Inl ValueError
      | k \<Rightarrow>
          if integral \<and> k = Infinite then Inl OverflowError
          else if integral \<and> k = NaN then Inl ValueError
          else if var \<noteq> [] \<and> last var = CHR ''.'' then Inl ValueError
          else Inr (PyNum var))"

text \<open>\<^verbatim>\<open>s.replace(a + b, r)\<close> for a pattern of two characters.\<close>

fun replace_pair :: "char \<Rightarrow> char \<Rightarrow> char \<Rightarrow> string \<Rightarrow> string" where
  "replace_pair a b r (x # y # zs) =
     (if x = a \<and> y = b then r # replace_pair a b r zs else x # replace_pair a b r (y # zs))"
| "replace_pair a b r xs = xs"

text \<open>
  \<^verbatim>\<open>unescape_string_literal\<close> on a token in matching quotes: the quotes are dropped,
  an escaped quote becomes the quote and a doubled backslash one backslash.
\<close>

definition unescape_string_literal :: "string \<Rightarrow> string" where
  "unescape_string_literal s =
     replace_pair (CHR 0x5C) (CHR 0x5C) (CHR 0x5C)
       (replace_pair (CHR 0x5C) (hd s) (hd s) (butlast (tl s)))"

text \<open>\<^verbatim>\<open>var.find('._') > -1\<close>.\<close>

fun contains_dot_underscore :: "string \<Rightarrow> bool" where
  "contains_dot_underscore (x # y # zs) =
     ((x = CHR ''.'' \<and> y = CHR ''_'') \<or> contains_dot_underscore (y # zs))"
| "contains_dot_underscore xs = False"

text \<open>\<^verbatim>\<open>var.split('.')\<close>.\<close>

fun split_dots :: "string \<Rightarrow> string list" where
  "split_dots [] = [[]]"
| "split_dots (x # xs) =
     (if x = CHR ''.'' then [] # split_dots xs
      else (x # hd (split_dots xs)) # tl (split_dots xs))"

text \<open>
  What the constructor leaves on the variable: a literal or the names to look up, and
  whether the result is to be translated.
\<close>

datatype target = VarLiteral pyval | VarLookups "string list"

text \<open>
  The \<^verbatim>\<open>except ValueError\<close> branch of the constructor: the token is not a number.
  \<^verbatim>\<open>_( ... )\<close> marks a translation; a token in matching quotes is a string literal
  (reading the first character of an empty token there raises \<^verbatim>\<open>IndexError\<close>); a
  name or attribute with a leading underscore is a \<^verbatim>\<open>TemplateSyntaxError\<close>; anything
  else is split at the dots.
\<close>

definition name_target :: "string \<Rightarrow> error + target \<times> bool" where
  "name_target var =
     (let translate = (take 2 var = ''_('' \<and> last var = CHR '')'');
          v = (if translate then butlast (drop 2 var) else var)
      in if v = [] then Inl IndexError
         else if (hd v = CHR 0x22 \<or> hd v = CHR 0x27) \<and> last v = hd v
           then Inr (VarLiteral (PyStr (unescape_string_literal v)), translate)
         else if contains_dot_underscore v \<or> hd v = CHR ''_'' then Inl TemplateSyntaxError
         else Inr (VarLookups (split_dots v), translate))"

text \<open>
  A name as template authors write it: a letter, then letters, digits and underscores.
\<close>

definition is_letter :: "char \<Rightarrow> bool" where
  "is_letter c = (let k = (of_char c :: nat) in (65 \<le> k \<and> k \<le> 90) \<or> (97 \<le> k \<and> k \<le> 122))"

definition plain_name :: "string \<Rightarrow> bool" where
  "plain_name var =
     (var \<noteq> [] \<and> is_letter (hd var)
      \<and> list_all (\<lambda>c. is_letter c \<or> is_digit c \<or> c = CHR ''_'') var)"

text \<open>\<^verbatim>\<open>template.Variable(var)\<close>.\<close>

definition Variable_init :: "string \<Rightarrow> error + target \<times> bool" where
  "Variable_init var =
     (case number_literal var of
        Inr v \<Rightarrow> Inr (VarLiteral v, False)
      | Inl ValueError \<Rightarrow> name_target var
      | Inl e \<Rightarrow> Inl e)"

text \<open>
  The lookup of a path of names in the context: one name bound in the dictionaries gives
  the value bound to it; every other path is the context's \<open>other_lookups\<close>, which
  raises \<^verbatim>\<open>VariableDoesNotExist\<close> where Django finds nothing.
\<close>

definition resolve_lookup :: "Context \<Rightarrow> string list \<Rightarrow> error + pyval" where
  "resolve_lookup ctx bits =
     (case bits of
        [x] \<Rightarrow> (case entries ctx x of Some v \<Rightarrow> Inr v | None \<Rightarrow> other_lookups ctx bits)
      | _ \<Rightarrow> other_lookups ctx bits)"

text \<open>\<^verbatim>\<open>template.Variable(var).resolve(context)\<close>.\<close>

definition Variable_resolve :: "string \<Rightarrow> Context \<Rightarrow> error + pyval" where
  "Variable_resolve var ctx =
     (case Variable_init var of
        Inl e \<Rightarrow> Inl e
      | Inr (tg, translate) \<Rightarrow>
          (case (case tg of
                   VarLiteral v \<Rightarrow> Inr v
                 | VarLookups bits \<Rightarrow> resolve_lookup ctx bits) of
             Inl e \<Rightarrow> Inl e
           | Inr v \<Rightarrow> if translate then gettext ctx v else Inr v))"

text \<open>Lines 82 to 85.\<close>

definition real_slug :: "FreeTextNode \<Rightarrow> Context \<Rightarrow> error + pyval" where
  "real_slug n ctx =
     (if is_variable n then Variable_resolve (slug n) ctx else Inr (PyStr (slug n)))"

text \<open>
  \<^verbatim>\<open>FreeText.objects.get(slug=s)\<close>: the one record with that slug,
  \<^verbatim>\<open>DoesNotExist\<close> when there is none, \<^verbatim>\<open>MultipleObjectsReturned\<close> when there
  are several.
\<close>

definition objects_get :: "block list \<Rightarrow> string \<Rightarrow> error + block" where
  "objects_get bs s =
     (case filter (\<lambda>b. block_slug b = s) bs of
        [] \<Rightarrow> Inl DoesNotExist
      | [b] \<Rightarrow> Inr b
      | _ \<Rightarrow> Inl MultipleObjectsReturned)"

definition logged :: "event list \<Rightarrow> world \<Rightarrow> world" where
  "logged es w = w\<lparr>log := log w @ es\<rparr>"

text \<open>
  Lines 94 to 98 for a string slug \<open>s\<close>: the cache lookup, and on a miss the store query
  and the cache write.  The timeout argument \<^verbatim>\<open>int(self.cache_time)\<close> is evaluated
  before \<^verbatim>\<open>cache.set\<close> is called, so a \<^verbatim>\<open>ValueError\<close> leaves the cache as it was.
\<close>

definition fetch :: "FreeTextNode \<Rightarrow> string \<Rightarrow> world \<Rightarrow> (error + block) \<times> world" where
  "fetch n s w =
     (let key = CACHE_PREFIX @ s in
      case cache w key of
        Some (c, t) \<Rightarrow> (Inr c, logged [CacheGet key] w)
      | None \<Rightarrow>
          (case objects_get (store w) s of
             Inl e \<Rightarrow> (Inl e, logged [CacheGet key, StoreGet s] w)
           | Inr c \<Rightarrow>
               (case py_int (cache_time n) of
                  Inl e \<Rightarrow> (Inl e, logged [CacheGet key, StoreGet s] w)
                | Inr ttl \<Rightarrow>
                    (Inr c, logged [CacheGet key, StoreGet s, CacheSet key c ttl]
                              (w\<lparr>cache := (cache w)(key \<mapsto> (c, ttl))\<rparr>)))))"

definition TEMPLATE_NAME :: string where
  "TEMPLATE_NAME = ''freetext/freetext.html''"

text \<open>
  Lines 99 to 104: the text returned for the record \<open>c\<close>.  \<open>req\<close> is the request of
  the calling context, when it has one (lines 88 to 92).
\<close>

definition produce :: "loader \<Rightarrow> bool \<Rightarrow> pyval option \<Rightarrow> block \<Rightarrow> error + string" where
  "produce ld wt req c =
     (if wt then
        (case ld TEMPLATE_NAME of
           None \<Rightarrow> Inl TemplateDoesNotExist
         | Some t \<Rightarrow> t \<lparr>sc_request = req, sc_record = c\<rparr>)
      else Inr (block_content c))"

definition output_events :: "bool \<Rightarrow> event list" where
  "output_events wt = (if wt then [GetTemplate TEMPLATE_NAME] else [])"

text \<open>
  The \<^verbatim>\<open>except FreeText.DoesNotExist\<close> clause of lines 105 and 106, applied to the
  outcome of the \<^verbatim>\<open>try\<close> block.
\<close>

definition caught :: "error + string \<Rightarrow> error + string" where
  "caught r = (case r of Inl DoesNotExist \<Rightarrow> Inr [] | _ \<Rightarrow> r)"

text \<open>
  \<^verbatim>\<open>FreeTextNode.render\<close>.  The result is the returned text or the exception that
  leaves \<^verbatim>\<open>render\<close>, together with the world after the call: an exception raised
  after the cache write keeps the write.  The variable lookup of line 83 is outside the
  \<^verbatim>\<open>try\<close> block; the block encloses the cache and store calls and the template, and
  only \<^verbatim>\<open>FreeText.DoesNotExist\<close> is caught.
\<close>

definition render :: "loader \<Rightarrow> FreeTextNode \<Rightarrow> Context \<Rightarrow> world \<Rightarrow> (error + string) \<times> world" where
  "render ld n ctx w =
     (case real_slug n ctx of
        Inl e \<Rightarrow> (Inl e, w)
      | Inr (PyStr s) \<Rightarrow>
          (case fetch n s w of
             (Inl e, w') \<Rightarrow> (caught (Inl e), w')
           | (Inr c, w') \<Rightarrow>
               (caught (produce ld (with_template n) (entries ctx ''request'') c),
                logged (output_events (with_template n)) w'))
      | Inr _ \<Rightarrow> (Inl TypeError, w))"

section \<open>The flatblock tag and the content model\<close>

text \<open>
  Modelled from the spec: the process-wide configuration of the flatblock kind
  (\<^verbatim>\<open>flatblocks/settings.py\<close> is not among the sources): the cache-key prefix and
  the auto-creation flag of section 4.2.
\<close>

record settings =
  cache_prefix :: string
  autocreate_static_blocks :: bool

text \<open>
  Modelled from the spec: the slug source and \<^verbatim>\<open>ParsedTagArguments\<close> of section 3
  (\<^verbatim>\<open>flatblocks/templatetags/flatblock_tags.py\<close> is not among the sources).
\<close>

datatype slug_source = Literal string | VariableRef string

record ParsedTagArguments =
  slugSource :: slug_source
  cacheTimeSeconds :: nat
  evaluated :: bool
  templateOverride :: "string option"

text \<open>
  Modelled from the spec: the cache invalidation of section 4.3
  (\<^verbatim>\<open>flatblocks/models.py\<close> is not among the sources).  Deleting the key
  \<open>prefix + slug\<close> from the cache, unconditionally.
\<close>

definition invalidate :: "settings \<Rightarrow> string \<Rightarrow> world \<Rightarrow> world" where
  "invalidate cfg s w =
     logged [CacheDelete (cache_prefix cfg @ s)]
       (w\<lparr>cache := (cache w)(cache_prefix cfg @ s := None)\<rparr>)"

definition slug_exists :: "string \<Rightarrow> block list \<Rightarrow> bool" where
  "slug_exists s bs = (s \<in> block_slug ` set bs)"

text \<open>
  Modelled from the spec: the store keeps at most one record per slug (section 3); a save
  replaces the record with that slug or adds a new one.
\<close>

definition put_block :: "block \<Rightarrow> block list \<Rightarrow> block list" where
  "put_block b bs =
     (if slug_exists (block_slug b) bs
      then map (\<lambda>x. if block_slug x = block_slug b then b else x) bs
      else bs @ [b])"

text \<open>
  Modelled from the spec: the save of a content record with its persistence hints
  (section 4.3, third item, and section 7).  A rejected save changes nothing; a
  successful one writes the store and then deletes the cache key.
\<close>

definition save_block ::
  "settings \<Rightarrow> block \<Rightarrow> bool \<Rightarrow> bool \<Rightarrow> world \<Rightarrow> (error + unit) \<times> world" where
  "save_block cfg b force_insert force_update w =
     (if force_insert \<and> force_update then (Inl ValueError, w)
      else if force_update \<and> \<not> slug_exists (block_slug b) (store w) then (Inl ValueError, w)
      else if force_insert \<and> slug_exists (block_slug b) (store w) then (Inl IntegrityError, w)
      else (Inr (),
            invalidate cfg (block_slug b)
              (logged [StoreSave b] (w\<lparr>store := put_block b (store w)\<rparr>))))"

text \<open>
  Modelled from the spec: the delete of a content record (section 4.3, second item).
\<close>

definition delete_block :: "settings \<Rightarrow> block \<Rightarrow> world \<Rightarrow> world" where
  "delete_block cfg b w =
     invalidate cfg (block_slug b)
       (logged [StoreDelete (block_slug b)]
          (w\<lparr>store := filter (\<lambda>x. block_slug x \<noteq> block_slug b) (store w)\<rparr>))"

text \<open>
  Modelled from the spec: step 1 of the render algorithm of section 4.2.  \<open>None\<close>
  stands for "render nothing and stop": the variable is absent or does not resolve to a
  non-empty string.
\<close>

definition resolve_slug :: "slug_source \<Rightarrow> Context \<Rightarrow> string option" where
  "resolve_slug src ctx =
     (case src of
        Literal s \<Rightarrow> Some s
      | VariableRef v \<Rightarrow>
          (case entries ctx v of
             Some (PyStr s) \<Rightarrow> if s = [] then None else Some s
           | _ \<Rightarrow> None))"

definition is_literal :: "slug_source \<Rightarrow> bool" where
  "is_literal src = (case src of Literal s \<Rightarrow> True | VariableRef v \<Rightarrow> False)"

text \<open>
  Modelled from the spec: the placeholder that auto-creation makes for the slug \<open>s\<close>:
  that slug, an empty header, and the slug text itself as content.
\<close>

definition placeholder :: "string \<Rightarrow> block" where
  "placeholder s = \<lparr>block_slug = s, block_header = [], block_content = s\<rparr>"

definition cache_put :: "string \<Rightarrow> block \<Rightarrow> int \<Rightarrow> world \<Rightarrow> world" where
  "cache_put key r ttl w =
     logged [CacheSet key r ttl] (w\<lparr>cache := (cache w)(key \<mapsto> (r, ttl))\<rparr>)"

text \<open>
  Modelled from the spec: steps 2 to 4 of section 4.2.  The cache is asked first; on a
  miss the store is queried and a found record is cached with the parsed timeout; a
  missing record of a literal slug is created when auto-creation is on (a create is a
  save, so it invalidates the key) and is then treated as found; otherwise there is no
  record.
\<close>

definition lookup_block ::
  "settings \<Rightarrow> ParsedTagArguments \<Rightarrow> string \<Rightarrow> world \<Rightarrow> block option \<times> world" where
  "lookup_block cfg a s w =
     (let key = cache_prefix cfg @ s; ttl = int (cacheTimeSeconds a) in
      case cache w key of
        Some (c, t) \<Rightarrow> (Some c, logged [CacheGet key] w)
      | None \<Rightarrow>
          (case find (\<lambda>b. block_slug b = s) (store w) of
             Some r \<Rightarrow> (Some r, cache_put key r ttl (logged [CacheGet key, StoreGet s] w))
           | None \<Rightarrow>
               if is_literal (slugSource a) \<and> autocreate_static_blocks cfg
               then (Some (placeholder s),
                     cache_put key (placeholder s) ttl
                       (snd (save_block cfg (placeholder s) False False
                               (logged [CacheGet key, StoreGet s] w))))
               else (None, logged [CacheGet key, StoreGet s] w)))"

text \<open>
  Modelled from the spec: the host template engine evaluating a stored text against the
  caller's context (step 5), taken as a parameter of the render.
\<close>

type_synonym evaluator = "Context \<Rightarrow> string \<Rightarrow> string"

definition DEFAULT_TEMPLATE :: string where
  "DEFAULT_TEMPLATE = ''flatblocks/flatblock.html''"

text \<open>
  Modelled from the spec: steps 5 to 7 of section 4.2.  In wrapped mode the record, with
  header and content evaluated when the tag says so, goes through the presentation
  sub-template; a sub-template that cannot be found is a template-syntax-level error.
  In plain mode the result is the content alone.
\<close>

definition present_block ::
  "loader \<Rightarrow> evaluator \<Rightarrow> bool \<Rightarrow> ParsedTagArguments \<Rightarrow> Context \<Rightarrow> block \<Rightarrow> error + string" where
  "present_block ld ev wrapped a ctx r =
     (let text_of = (\<lambda>t. if evaluated a then ev ctx t else t) in
      if wrapped then
        (case ld (case templateOverride a of None \<Rightarrow> DEFAULT_TEMPLATE | Some t \<Rightarrow> t) of
           None \<Rightarrow> Inl TemplateSyntaxError
         | Some t \<Rightarrow>
             t \<lparr>sc_request = entries ctx ''request'',
                sc_record = r\<lparr>block_header := text_of (block_header r),
                              block_content := text_of (block_content r)\<rparr>\<rparr>)
      else Inr (text_of (block_content r)))"

text \<open>Modelled from the spec: the render algorithm of section 4.2 as a whole.\<close>

definition flatblock_render ::
  "settings \<Rightarrow> loader \<Rightarrow> evaluator \<Rightarrow> bool \<Rightarrow> ParsedTagArguments \<Rightarrow> Context \<Rightarrow> world
     \<Rightarrow> (error + string) \<times> world" where
  "flatblock_render cfg ld ev wrapped a ctx w =
     (case resolve_slug (slugSource a) ctx of
        None \<Rightarrow> (Inr [], w)
      | Some s \<Rightarrow>
          (case lookup_block cfg a s w of
             (None, w') \<Rightarrow> (Inr [], w')
           | (Some r, w') \<Rightarrow> (present_block ld ev wrapped a ctx r, w')))"

section \<open>Concrete tags, records and worlds\<close>

definition dq :: char where
  "dq = CHR 0x22"

definition sq :: char where
  "sq = CHR 0x27"

definition quoted :: "char \<Rightarrow> string \<Rightarrow> string" where
  "quoted q s = q # s @ [q]"

definition example_block :: block where
  "example_block = \<lparr>block_slug = ''block'', block_header = ''HEADER'', block_content = ''CONTENT''\<rparr>"

definition stale_block :: block where
  "stale_block = \<lparr>block_slug = ''block'', block_header = ''OLD'', block_content = ''STALE''\<rparr>"

definition no_cache :: "string \<rightharpoonup> block \<times> int" where
  "no_cache = Map.empty"

definition empty_world :: world where
  "empty_world = \<lparr>cache = no_cache, store = [], log = []\<rparr>"

definition example_world :: world where
  "example_world = \<lparr>cache = no_cache, store = [example_block], log = []\<rparr>"

definition cached_world :: world where
  "cached_world = \<lparr>cache = no_cache(''freetext_block'' \<mapsto> (stale_block, 60)), store = [], log = []\<rparr>"

text \<open>
  \<^verbatim>\<open>Context({})\<close> with no translation active, and the same context with the
  variable \<^verbatim>\<open>name\<close> bound.  Of their lookups beyond the dictionaries the examples
  only use that of a name that is found nowhere.
\<close>

definition nothing_else :: "string list \<Rightarrow> error + pyval" where
  "nothing_else bits = Inl VariableDoesNotExist"

definition empty_context :: Context where
  "empty_context = \<lparr>entries = Map.empty, other_lookups = nothing_else, gettext = Inr\<rparr>"

definition foo_context :: Context where
  "foo_context = \<lparr>entries = Map.empty(''name'' \<mapsto> PyStr ''foo''),
                   other_lookups = nothing_else, gettext = Inr\<rparr>"

definition blank_context :: Context where
  "blank_context = \<lparr>entries = Map.empty(''name'' \<mapsto> PyStr []),
                     other_lookups = nothing_else, gettext = Inr\<rparr>"

definition no_templates :: loader where
  "no_templates = Map.empty"

definition div_template :: "sub_ctx \<Rightarrow> error + string" where
  "div_template sc = Inr (''<div>'' @ block_content (sc_record sc) @ ''</div>'')"

definition example_loader :: loader where
  "example_loader = Map.empty(TEMPLATE_NAME \<mapsto> div_template)"

definition block_node :: FreeTextNode where
  "block_node = \<lparr>slug = ''block'', is_variable = False, cache_time = CtInt 0, with_template = True\<rparr>"

definition plain_block_node :: FreeTextNode where
  "plain_block_node = \<lparr>slug = ''block'', is_variable = False, cache_time = CtInt 0, with_template = False\<rparr>"

definition name_node :: FreeTextNode where
  "name_node = \<lparr>slug = ''name'', is_variable = True, cache_time = CtInt 0, with_template = True\<rparr>"

definition evaluated_node :: FreeTextNode where
  "evaluated_node = \<lparr>slug = ''block'', is_variable = False, cache_time = CtTok ''evaluated'',
                      with_template = False\<rparr>"

definition sixty_node :: FreeTextNode where
  "sixty_node = \<lparr>slug = ''block'', is_variable = False, cache_time = CtTok ''60'',
                  with_template = True\<rparr>"

definition abc_node :: FreeTextNode where
  "abc_node = \<lparr>slug = ''block'', is_variable = False, cache_time = CtTok ''abc'', with_template = True\<rparr>"

definition autocreate_on :: settings where
  "autocreate_on = \<lparr>cache_prefix = ''flatblocks_'', autocreate_static_blocks = True\<rparr>"

definition autocreate_off :: settings where
  "autocreate_off = \<lparr>cache_prefix = ''flatblocks_'', autocreate_static_blocks = False\<rparr>"

definition foo_args :: ParsedTagArguments where
  "foo_args = \<lparr>slugSource = Literal ''foo'', cacheTimeSeconds = 0, evaluated = False,
                templateOverride = None\<rparr>"

definition block_args :: ParsedTagArguments where
  "block_args = \<lparr>slugSource = Literal ''block'', cacheTimeSeconds = 60, evaluated = False,
                  templateOverride = None\<rparr>"

definition verbatim :: evaluator where
  "verbatim ctx t = t"

definition updated_block :: block where
  "updated_block = \<lparr>block_slug = ''block'', block_header = ''UPDATED'', block_content = ''CONTENT''\<rparr>"

definition missing_block :: block where
  "missing_block = \<lparr>block_slug = ''missing'', block_header = [], block_content = []\<rparr>"

definition flat_cached_world :: world where
  "flat_cached_world =
     \<lparr>cache = no_cache(''flatblocks_block'' \<mapsto> (example_block, 60)),
      store = [example_block], log = []\<rparr>"

section \<open>Properties of the \<^verbatim>\<open>freetext\<close> render node\<close>

lemma objects_get_none:
  "s \<notin> block_slug ` set bs \<Longrightarrow> objects_get bs s = Inl DoesNotExist"
proof -
  assume "s \<notin> block_slug ` set bs"
  then have "filter (\<lambda>b. block_slug b = s) bs = []"
    by (auto simp: filter_empty_conv)
  then show ?thesis by (simp add: objects_get_def)
qed

lemma logged_fields [simp]:
  "cache (logged es w) = cache w"
  "store (logged es w) = store w"
  "log (logged es w) = log w @ es"
  by (simp_all add: logged_def)

lemma logged_logged: "logged es (logged ds w) = logged (ds @ es) w"
  by (simp add: logged_def)

lemma fetch_hit:
  "cache w (CACHE_PREFIX @ s) = Some (c, t) \<Longrightarrow>
     fetch n s w = (Inr c, logged [CacheGet (CACHE_PREFIX @ s)] w)"
  by (simp add: fetch_def)

lemma fetch_miss_error:
  "cache w (CACHE_PREFIX @ s) = None \<Longrightarrow> objects_get (store w) s = Inl e \<Longrightarrow>
     fetch n s w = (Inl e, logged [CacheGet (CACHE_PREFIX @ s), StoreGet s] w)"
  by (simp add: fetch_def)

lemma fetch_miss_bad_time:
  "cache w (CACHE_PREFIX @ s) = None \<Longrightarrow> objects_get (store w) s = Inr r \<Longrightarrow>
   py_int (cache_time n) = Inl e \<Longrightarrow>
     fetch n s w = (Inl e, logged [CacheGet (CACHE_PREFIX @ s), StoreGet s] w)"
  by (simp add: fetch_def)

lemma fetch_miss_found:
  "cache w (CACHE_PREFIX @ s) = None \<Longrightarrow> objects_get (store w) s = Inr r \<Longrightarrow>
   py_int (cache_time n) = Inr ttl \<Longrightarrow>
     fetch n s w = (Inr r, logged [CacheGet (CACHE_PREFIX @ s), StoreGet s,
                                   CacheSet (CACHE_PREFIX @ s) r ttl]
                            (w\<lparr>cache := (cache w)(CACHE_PREFIX @ s \<mapsto> (r, ttl))\<rparr>))"
  by (simp add: fetch_def Let_def)

lemma digit_of_plain:
  "digit_of c = Some d \<Longrightarrow> \<not> is_space c \<and> c \<noteq> CHR ''-'' \<and> c \<noteq> CHR ''+''"
  by (auto simp: digit_of_def is_space_def Let_def split: if_splits)

lemma digits_val_all_digits:
  "digits_val ds acc = Some k \<Longrightarrow> c \<in> set ds \<Longrightarrow> \<exists>d. digit_of c = Some d"
  by (induction ds arbitrary: acc) (auto split: option.splits)

lemma strip_digits:
  assumes "digits_val ds 0 = Some k"
  shows "strip ds = ds"
proof (cases "ds = []")
  case True
  then show ?thesis by (simp add: strip_def)
next
  case False
  then have "hd ds \<in> set ds" and "last ds \<in> set ds" by simp_all
  with assms have "\<not> is_space (hd ds)" and "\<not> is_space (last ds)"
    using digits_val_all_digits digit_of_plain by blast+
  with False have "dropWhile is_space ds = ds" and "dropWhile is_space (rev ds) = rev ds"
    by (simp_all add: dropWhile_eq_self_iff hd_rev)
  then show ?thesis by (simp add: strip_def)
qed

text \<open>A token of decimal digits converts to the number it spells.\<close>

lemma int_of_digits:
  assumes "ds \<noteq> []" and "digits_val ds 0 = Some k"
  shows "int_of_token ds = Inr (int k)"
proof -
  from assms(1) obtain c cs where ds: "ds = c # cs" by (cases ds) auto
  with assms(2) obtain d where "digit_of c = Some d"
    using digits_val_all_digits[of ds 0 k c] by auto
  then have "c \<noteq> CHR ''-''" and "c \<noteq> CHR ''+''"
    using digit_of_plain by blast+
  moreover have "strip ds = c # cs"
    using strip_digits[OF assms(2)] ds by simp
  ultimately show ?thesis
    using assms(2) ds by (simp add: int_of_token_def)
qed

lemma py_int_digits:
  "ds \<noteq> [] \<Longrightarrow> digits_val ds 0 = Some k \<Longrightarrow> py_int (CtTok ds) = Inr (int k)"
  by (simp add: py_int_def int_of_digits)

text \<open>\<^verbatim>\<open>int()\<close> raises nothing but \<^verbatim>\<open>ValueError\<close>.\<close>

lemma py_int_error: "py_int a = Inl e \<Longrightarrow> e = ValueError"
  by (auto simp: py_int_def int_of_token_def Let_def
           split: cache_time_arg.splits list.splits if_splits option.splits)

lemma caught_simps [simp]:
  "caught (Inr t) = Inr t"
  "caught (Inl e) = (if e = DoesNotExist then Inr [] else Inl e)"
  by (cases e; simp add: caught_def)+

lemma render_str:
  "real_slug n ctx = Inr (PyStr s) \<Longrightarrow>
   render ld n ctx w =
     (case fetch n s w of
        (Inl e, w') \<Rightarrow> (caught (Inl e), w')
      | (Inr c, w') \<Rightarrow>
          (caught (produce ld (with_template n) (entries ctx ''request'') c),
           logged (output_events (with_template n)) w'))"
  by (simp add: render_def)

text \<open>The four ways a render of a string slug can go.\<close>

lemma render_hit:
  assumes "real_slug n ctx = Inr (PyStr s)" and "cache w (CACHE_PREFIX @ s) = Some (c, t)"
  shows "render ld n ctx w =
           (caught (produce ld (with_template n) (entries ctx ''request'') c),
            logged (CacheGet (CACHE_PREFIX @ s) # output_events (with_template n)) w)"
  using assms by (simp add: render_str fetch_hit logged_logged)

lemma render_miss_found:
  assumes "real_slug n ctx = Inr (PyStr s)" and "cache w (CACHE_PREFIX @ s) = None"
      and "objects_get (store w) s = Inr r" and "py_int (cache_time n) = Inr ttl"
  shows "render ld n ctx w =
           (caught (produce ld (with_template n) (entries ctx ''request'') r),
            logged ([CacheGet (CACHE_PREFIX @ s), StoreGet s, CacheSet (CACHE_PREFIX @ s) r ttl]
                      @ output_events (with_template n))
              (w\<lparr>cache := (cache w)(CACHE_PREFIX @ s \<mapsto> (r, ttl))\<rparr>))"
  using assms by (simp add: render_str fetch_miss_found logged_logged)

lemma render_miss_bad_time:
  assumes "real_slug n ctx = Inr (PyStr s)" and "cache w (CACHE_PREFIX @ s) = None"
      and "objects_get (store w) s = Inr r" and "py_int (cache_time n) = Inl e"
  shows "render ld n ctx w =
           (Inl ValueError, logged [CacheGet (CACHE_PREFIX @ s), StoreGet s] w)"
  using assms py_int_error[OF assms(4)] by (simp add: render_str fetch_miss_bad_time)

lemma render_miss_error:
  assumes "real_slug n ctx = Inr (PyStr s)" and "cache w (CACHE_PREFIX @ s) = None"
      and "objects_get (store w) s = Inl e"
  shows "render ld n ctx w =
           ((if e = DoesNotExist then Inr [] else Inl e),
            logged [CacheGet (CACHE_PREFIX @ s), StoreGet s] w)"
  using assms by (simp add: render_str fetch_miss_error)

lemma render_not_str:
  "real_slug n ctx = Inl e \<Longrightarrow> render ld n ctx w = (Inl e, w)"
  "real_slug n ctx = Inr (PyInt i) \<Longrightarrow> render ld n ctx w = (Inl TypeError, w)"
  "real_slug n ctx = Inr (PyNum t) \<Longrightarrow> render ld n ctx w = (Inl TypeError, w)"
  "real_slug n ctx = Inr PyNone \<Longrightarrow> render ld n ctx w = (Inl TypeError, w)"
  "real_slug n ctx = Inr (PyObj k) \<Longrightarrow> render ld n ctx w = (Inl TypeError, w)"
  by (simp_all add: render_def)

lemma cache_cases:
  obtains (hit) c t where "m k = Some (c, t)" | (miss) "m k = None"
  by (cases "m k") auto

text \<open>
  C6.  When the resolved slug is a string with no entry in the cache and no record in the
  store, the render returns the empty string, raises nothing, and leaves cache and store
  as they were.  (\<^verbatim>\<open>freetext.py\<close> has no auto-creation.)
\<close>

theorem render_missing_record_empty:
  assumes "real_slug n ctx = Inr (PyStr S)"
      and "cache w (CACHE_PREFIX @ S) = None"
      and "S \<notin> block_slug ` set (store w)"
  shows "fst (render ld n ctx w) = Inr []
     \<and> store (snd (render ld n ctx w)) = store w
     \<and> cache (snd (render ld n ctx w)) = cache w"
  using assms by (simp add: render_miss_error objects_get_none)

lemma name_is_looked_up: "Variable_init ''name'' = Inr (VarLookups [''name''], False)"
  by (simp add: Variable_init_def number_literal_def py_float_kind_def strip_def is_space_def
        unsigned_def lower_def decimal_ok_def is_e_def mantissa_ok_def is_digit_def
        digit_of_def name_target_def Let_def)

theorem render_missing_record_empty_witness:
  "fst (render example_loader name_node foo_context example_world) = Inr []
   \<and> store (snd (render example_loader name_node foo_context example_world)) = [example_block]"
proof -
  have rs: "real_slug name_node foo_context = Inr (PyStr ''foo'')"
    by (simp add: real_slug_def Variable_resolve_def name_is_looked_up resolve_lookup_def
          name_node_def foo_context_def)
  have miss: "cache example_world (CACHE_PREFIX @ ''foo'') = None"
    by (simp add: example_world_def no_cache_def)
  have none: "''foo'' \<notin> block_slug ` set (store example_world)"
    by (simp add: example_world_def example_block_def)
  show ?thesis
    using render_missing_record_empty [OF rs miss none, of example_loader]
    by (simp add: example_world_def)
qed

text \<open>
  C1, as the code has it.  A render whose slug resolves to the string \<open>S\<close> first looks
  up \<open>CACHE_PREFIX @ S\<close> in the cache.  On a hit it produces its output from the cached
  record and touches neither store nor cache.  On a miss it queries the store; with the
  record found it converts the node's cache time with \<^verbatim>\<open>int()\<close>: when that gives
  the integer \<open>ttl\<close>, the whole record is written into the cache with timeout \<open>ttl\<close>
  and only then the output is produced; when \<^verbatim>\<open>int()\<close> rejects the cache time, the
  render raises \<^verbatim>\<open>ValueError\<close>, writes nothing and produces no output.  The integer
  is the default 0 of a tag without CACHE_TIME, and the number that a CACHE_TIME token of
  decimal digits spells.  An output stage that raises \<^verbatim>\<open>FreeText.DoesNotExist\<close>
  gives the empty string.
\<close>

theorem render_cache_first:
  assumes "real_slug n ctx = Inr (PyStr S)"
  shows "(\<exists>rest. log (snd (render ld n ctx w)) = log w @ CacheGet (CACHE_PREFIX @ S) # rest)
     \<and> (\<forall>c t. cache w (CACHE_PREFIX @ S) = Some (c, t) \<longrightarrow>
           render ld n ctx w =
             (caught (produce ld (with_template n) (entries ctx ''request'') c),
              logged (CacheGet (CACHE_PREFIX @ S) # output_events (with_template n)) w))
     \<and> (\<forall>r ttl. cache w (CACHE_PREFIX @ S) = None \<and> objects_get (store w) S = Inr r
             \<and> py_int (cache_time n) = Inr ttl \<longrightarrow>
           render ld n ctx w =
             (caught (produce ld (with_template n) (entries ctx ''request'') r),
              logged ([CacheGet (CACHE_PREFIX @ S), StoreGet S, CacheSet (CACHE_PREFIX @ S) r ttl]
                        @ output_events (with_template n))
                (w\<lparr>cache := (cache w)(CACHE_PREFIX @ S \<mapsto> (r, ttl))\<rparr>)))
     \<and> (\<forall>r e. cache w (CACHE_PREFIX @ S) = None \<and> objects_get (store w) S = Inr r
             \<and> py_int (cache_time n) = Inl e \<longrightarrow>
           render ld n ctx w =
             (Inl ValueError, logged [CacheGet (CACHE_PREFIX @ S), StoreGet S] w))
     \<and> (\<forall>k. cache_time n = CtInt k \<longrightarrow> py_int (cache_time n) = Inr k)
     \<and> (\<forall>ds k. cache_time n = CtTok ds \<and> ds \<noteq> [] \<and> digits_val ds 0 = Some k \<longrightarrow>
           py_int (cache_time n) = Inr (int k))"
proof (intro conjI allI impI)
  show "\<exists>rest. log (snd (render ld n ctx w)) = log w @ CacheGet (CACHE_PREFIX @ S) # rest"
  proof (cases rule: cache_cases[of "cache w" "CACHE_PREFIX @ S"])
    case (hit c t)
    then show ?thesis using assms by (simp add: render_hit)
  next
    case miss
    show ?thesis
    proof (cases "objects_get (store w) S")
      case (Inl e)
      with miss assms show ?thesis by (simp add: render_miss_error)
    next
      case found: (Inr r)
      show ?thesis
      proof (cases "py_int (cache_time n)")
        case (Inl e)
        with miss found assms show ?thesis by (simp add: render_miss_bad_time)
      next
        case (Inr ttl)
        with miss found assms show ?thesis by (simp add: render_miss_found)
      qed
    qed
  qed
next
  fix c t
  assume "cache w (CACHE_PREFIX @ S) = Some (c, t)"
  with assms show "render ld n ctx w =
             (caught (produce ld (with_template n) (entries ctx ''request'') c),
              logged (CacheGet (CACHE_PREFIX @ S) # output_events (with_template n)) w)"
    by (rule render_hit)
next
  fix r ttl
  assume "cache w (CACHE_PREFIX @ S) = None \<and> objects_get (store w) S = Inr r
             \<and> py_int (cache_time n) = Inr ttl"
  with assms show "render ld n ctx w =
             (caught (produce ld (with_template n) (entries ctx ''request'') r),
              logged ([CacheGet (CACHE_PREFIX @ S), StoreGet S, CacheSet (CACHE_PREFIX @ S) r ttl]
                        @ output_events (with_template n))
                (w\<lparr>cache := (cache w)(CACHE_PREFIX @ S \<mapsto> (r, ttl))\<rparr>))"
    by (simp add: render_miss_found)
next
  fix r e
  assume "cache w (CACHE_PREFIX @ S) = None \<and> objects_get (store w) S = Inr r
             \<and> py_int (cache_time n) = Inl e"
  with assms show "render ld n ctx w =
             (Inl ValueError, logged [CacheGet (CACHE_PREFIX @ S), StoreGet S] w)"
    by (simp add: render_miss_bad_time)
next
  fix k
  assume "cache_time n = CtInt k"
  then show "py_int (cache_time n) = Inr k" by (simp add: py_int_def)
next
  fix ds k
  assume "cache_time n = CtTok ds \<and> ds \<noteq> [] \<and> digits_val ds 0 = Some k"
  then show "py_int (cache_time n) = Inr (int k)" by (simp add: py_int_digits)
qed

theorem render_cache_first_witness:
  "render example_loader sixty_node empty_context example_world =
     (Inr ''<div>CONTENT</div>'',
      \<lparr>cache = no_cache(''freetext_block'' \<mapsto> (example_block, 60)),
       store = [example_block],
       log = [CacheGet ''freetext_block'', StoreGet ''block'',
              CacheSet ''freetext_block'' example_block 60, GetTemplate TEMPLATE_NAME]\<rparr>)
   \<and> render example_loader block_node empty_context cached_world =
     (Inr ''<div>STALE</div>'',
      \<lparr>cache = no_cache(''freetext_block'' \<mapsto> (stale_block, 60)),
       store = [],
       log = [CacheGet ''freetext_block'', GetTemplate TEMPLATE_NAME]\<rparr>)
   \<and> render example_loader abc_node empty_context example_world =
     (Inl ValueError,
      \<lparr>cache = no_cache, store = [example_block],
       log = [CacheGet ''freetext_block'', StoreGet ''block'']\<rparr>)"
proof -
  have dv: "digits_val ''60'' 0 = Some 60"
    by (simp add: digit_of_def)
  have bad: "py_int (cache_time abc_node) = Inl ValueError"
    by (simp add: abc_node_def py_int_def int_of_token_def strip_def is_space_def digit_of_def)
  note miss = render_cache_first
      [where n = sixty_node and ctx = empty_context and S = "''block''" and ld = example_loader
         and w = example_world]
  note hit = render_cache_first
      [where n = block_node and ctx = empty_context and S = "''block''" and ld = example_loader
         and w = cached_world]
  note rejected = render_cache_first
      [where n = abc_node and ctx = empty_context and S = "''block''" and ld = example_loader
         and w = example_world]
  have ttl: "py_int (cache_time sixty_node) = Inr 60"
    using miss dv by (simp add: real_slug_def sixty_node_def)
  have "render example_loader sixty_node empty_context example_world =
     (Inr ''<div>CONTENT</div>'',
      \<lparr>cache = no_cache(''freetext_block'' \<mapsto> (example_block, 60)),
       store = [example_block],
       log = [CacheGet ''freetext_block'', StoreGet ''block'',
              CacheSet ''freetext_block'' example_block 60, GetTemplate TEMPLATE_NAME]\<rparr>)"
    using miss ttl
    by (simp add: real_slug_def sixty_node_def example_world_def no_cache_def
          CACHE_PREFIX_def objects_get_def example_block_def
          produce_def example_loader_def div_template_def output_events_def logged_def
          empty_context_def)
  moreover have "render example_loader block_node empty_context cached_world =
     (Inr ''<div>STALE</div>'',
      \<lparr>cache = no_cache(''freetext_block'' \<mapsto> (stale_block, 60)),
       store = [],
       log = [CacheGet ''freetext_block'', GetTemplate TEMPLATE_NAME]\<rparr>)"
    using hit
    by (simp add: real_slug_def block_node_def cached_world_def no_cache_def
          CACHE_PREFIX_def stale_block_def
          produce_def example_loader_def div_template_def output_events_def logged_def
          empty_context_def)
  moreover have "render example_loader abc_node empty_context example_world =
     (Inl ValueError,
      \<lparr>cache = no_cache, store = [example_block],
       log = [CacheGet ''freetext_block'', StoreGet ''block'']\<rparr>)"
    using rejected bad
    by (simp add: real_slug_def abc_node_def example_world_def no_cache_def
          CACHE_PREFIX_def objects_get_def example_block_def logged_def)
  ultimately show ?thesis by blast
qed

theorem unwritten_cache_counterexample:
  "do_get_freetext [''freetext'', quoted dq ''block'', ''abc''] = Inr abc_node
   \<and> cache example_world ''freetext_block'' = None
   \<and> objects_get (store example_world) ''block'' = Inr example_block
   \<and> render example_loader abc_node empty_context example_world =
       (Inl ValueError,
        \<lparr>cache = no_cache, store = [example_block],
         log = [CacheGet ''freetext_block'', StoreGet ''block'']\<rparr>)"
  by (simp add: do_get_freetext_def check_slug_def is_quoted_def unquote_def quoted_def dq_def
        mk_node_def abc_node_def render_def fetch_def real_slug_def example_world_def
        no_cache_def CACHE_PREFIX_def objects_get_def example_block_def py_int_def
        int_of_token_def strip_def is_space_def digit_of_def Let_def logged_def)

text \<open>
  C9.  Rendering the same node twice in a row against the same context, with nothing
  else touching cache or store in between, gives the same result both times (the same
  text, or the same exception).
\<close>

theorem render_twice_same:
  "fst (render ld n ctx (snd (render ld n ctx w))) = fst (render ld n ctx w)"
proof (cases "real_slug n ctx")
  case (Inl e)
  then show ?thesis by (simp add: render_not_str)
next
  case (Inr v)
  show ?thesis
  proof (cases v)
    case (PyStr s)
    with Inr have rs: "real_slug n ctx = Inr (PyStr s)" by simp
    show ?thesis
    proof (cases rule: cache_cases[of "cache w" "CACHE_PREFIX @ s"])
      case (hit c t)
      then show ?thesis by (simp add: render_hit[OF rs])
    next
      case miss
      show ?thesis
      proof (cases "objects_get (store w) s")
        case (Inl e)
        with miss show ?thesis by (simp add: render_miss_error[OF rs])
      next
        case found: (Inr r)
        show ?thesis
        proof (cases "py_int (cache_time n)")
          case (Inl e)
          with miss found show ?thesis by (simp add: render_miss_bad_time[OF rs])
        next
          case (Inr ttl)
          with miss found show ?thesis
            by (simp add: render_miss_found[OF rs] render_hit[OF rs])
        qed
      qed
    qed
  qed (use Inr in \<open>simp_all add: render_not_str\<close>)
qed

theorem render_twice_same_witness:
  "fst (render example_loader block_node empty_context
          (snd (render example_loader block_node empty_context example_world)))
     = Inr ''<div>CONTENT</div>''
   \<and> fst (render example_loader block_node empty_context example_world)
     = Inr ''<div>CONTENT</div>''"
proof -
  have "fst (render example_loader block_node empty_context example_world)
          = Inr ''<div>CONTENT</div>''"
    by (simp add: render_def fetch_def real_slug_def block_node_def example_world_def
          no_cache_def CACHE_PREFIX_def objects_get_def example_block_def py_int_def
          produce_def example_loader_def div_template_def Let_def)
  then show ?thesis
    using render_twice_same [of example_loader block_node empty_context example_world]
    by simp
qed

lemma render_cases [case_names error hit miss_error bad_time found]:
  obtains e where "render ld n ctx w = (Inl e, w)"
  | s c t where "real_slug n ctx = Inr (PyStr s)" and "cache w (CACHE_PREFIX @ s) = Some (c, t)"
  | s e where "real_slug n ctx = Inr (PyStr s)" and "cache w (CACHE_PREFIX @ s) = None"
      and "objects_get (store w) s = Inl e"
  | s r e where "real_slug n ctx = Inr (PyStr s)" and "cache w (CACHE_PREFIX @ s) = None"
      and "objects_get (store w) s = Inr r" and "py_int (cache_time n) = Inl e"
  | s r ttl where "real_slug n ctx = Inr (PyStr s)" and "cache w (CACHE_PREFIX @ s) = None"
      and "objects_get (store w) s = Inr r" and "py_int (cache_time n) = Inr ttl"
proof (cases "real_slug n ctx")
  case (Inl e)
  then show ?thesis using that(1) by (simp add: render_not_str)
next
  case (Inr v)
  show ?thesis
  proof (cases v)
    case (PyStr s)
    with Inr have rs: "real_slug n ctx = Inr (PyStr s)" by simp
    show ?thesis
    proof (cases rule: cache_cases[of "cache w" "CACHE_PREFIX @ s"])
      case (hit c t)
      with rs show ?thesis using that(2) by blast
    next
      case miss
      show ?thesis
      proof (cases "objects_get (store w) s")
        case (Inl e)
        with rs miss show ?thesis using that(3) by blast
      next
        case found: (Inr r)
        show ?thesis
        proof (cases "py_int (cache_time n)")
          case (Inl e)
          with rs miss found show ?thesis using that(4) by blast
        next
          case (Inr ttl)
          with rs miss found show ?thesis using that(5) by blast
        qed
      qed
    qed
  qed (use Inr that(1) in \<open>simp_all add: render_not_str\<close>)
qed

text \<open>No path through \<^verbatim>\<open>render\<close> writes to the store.\<close>

lemma render_store: "store (snd (render ld n ctx w)) = store w"
proof (cases rule: render_cases[of ld n ctx w])
  case (error e)
  then show ?thesis by simp
next
  case (hit s c t)
  then show ?thesis by (simp add: render_hit)
next
  case (miss_error s e)
  then show ?thesis by (simp add: render_miss_error)
next
  case (bad_time s r e)
  then show ?thesis by (simp add: render_miss_bad_time)
next
  case (found s r ttl)
  then show ?thesis by (simp add: render_miss_found)
qed

lemma real_slug_mode [simp]: "real_slug (n\<lparr>with_template := wt\<rparr>) ctx = real_slug n ctx"
  by (simp add: real_slug_def)

text \<open>The mode of the node decides the returned text and nothing in cache or store.\<close>

lemma fetch_mode [simp]: "fetch (n\<lparr>with_template := wt\<rparr>) s w = fetch n s w"
  by (simp add: fetch_def Let_def split: option.splits sum.splits)

lemma render_cache_of_fetch:
  "real_slug n ctx = Inr (PyStr s) \<Longrightarrow>
     cache (snd (render ld n ctx w)) = cache (snd (fetch n s w))"
  by (simp add: render_str split: prod.splits sum.splits)

lemma render_mode_effects:
  "cache (snd (render ld (n\<lparr>with_template := wt\<rparr>) ctx w)) = cache (snd (render ld n ctx w))"
proof (cases "real_slug n ctx")
  case (Inl e)
  then show ?thesis by (simp add: render_def)
next
  case (Inr v)
  show ?thesis
  proof (cases v)
    case (PyStr s)
    with Inr have "real_slug n ctx = Inr (PyStr s)" by simp
    then show ?thesis
      using render_cache_of_fetch[of "n\<lparr>with_template := wt\<rparr>" ctx s ld w]
      by (simp add: render_cache_of_fetch)
  qed (use Inr in \<open>simp_all add: render_def\<close>)
qed

text \<open>
  C10, as the code has it.  On a render that misses the cache and finds the record \<open>r\<close>
  in the store, the record is written into the cache under \<open>CACHE_PREFIX @ S\<close> whenever
  \<^verbatim>\<open>int()\<close> accepts the node's cache time, with the integer it gives as timeout: there
  is no guard on the value (the default 0 is written like any other, and a token of
  decimal digits with the number it spells) and none on the mode, and the plain and the
  wrapped mode of one node leave the same cache behind.  When \<^verbatim>\<open>int()\<close> rejects the
  cache time, the render raises \<^verbatim>\<open>ValueError\<close> before the write and the cache is as
  it was.
\<close>

theorem render_miss_writes_cache:
  assumes "real_slug n ctx = Inr (PyStr S)"
      and "cache w (CACHE_PREFIX @ S) = None"
      and "objects_get (store w) S = Inr r"
  shows "(\<forall>ttl. py_int (cache_time n) = Inr ttl \<longrightarrow>
            cache (snd (render ld n ctx w)) = (cache w)(CACHE_PREFIX @ S \<mapsto> (r, ttl))
          \<and> CacheSet (CACHE_PREFIX @ S) r ttl \<in> set (log (snd (render ld n ctx w))))
     \<and> (\<forall>k. cache_time n = CtInt k \<longrightarrow>
            cache (snd (render ld n ctx w)) = (cache w)(CACHE_PREFIX @ S \<mapsto> (r, k)))
     \<and> (\<forall>ds k. cache_time n = CtTok ds \<and> ds \<noteq> [] \<and> digits_val ds 0 = Some k \<longrightarrow>
            cache (snd (render ld n ctx w)) = (cache w)(CACHE_PREFIX @ S \<mapsto> (r, int k)))
     \<and> (\<forall>e. py_int (cache_time n) = Inl e \<longrightarrow>
            render ld n ctx w =
              (Inl ValueError, logged [CacheGet (CACHE_PREFIX @ S), StoreGet S] w))
     \<and> cache (snd (render ld (n\<lparr>with_template := False\<rparr>) ctx w))
         = cache (snd (render ld (n\<lparr>with_template := True\<rparr>) ctx w))"
proof (intro conjI allI impI)
  fix ttl
  assume "py_int (cache_time n) = Inr ttl"
  with assms show "cache (snd (render ld n ctx w)) = (cache w)(CACHE_PREFIX @ S \<mapsto> (r, ttl))"
    and "CacheSet (CACHE_PREFIX @ S) r ttl \<in> set (log (snd (render ld n ctx w)))"
    by (simp_all add: render_miss_found)
next
  fix k
  assume "cache_time n = CtInt k"
  then have "py_int (cache_time n) = Inr k" by (simp add: py_int_def)
  with assms show "cache (snd (render ld n ctx w)) = (cache w)(CACHE_PREFIX @ S \<mapsto> (r, k))"
    by (simp add: render_miss_found)
next
  fix ds k
  assume "cache_time n = CtTok ds \<and> ds \<noteq> [] \<and> digits_val ds 0 = Some k"
  then have "py_int (cache_time n) = Inr (int k)" by (simp add: py_int_digits)
  with assms
  show "cache (snd (render ld n ctx w)) = (cache w)(CACHE_PREFIX @ S \<mapsto> (r, int k))"
    by (simp add: render_miss_found)
next
  fix e
  assume "py_int (cache_time n) = Inl e"
  with assms show "render ld n ctx w =
              (Inl ValueError, logged [CacheGet (CACHE_PREFIX @ S), StoreGet S] w)"
    by (simp add: render_miss_bad_time)
next
  show "cache (snd (render ld (n\<lparr>with_template := False\<rparr>) ctx w))
         = cache (snd (render ld (n\<lparr>with_template := True\<rparr>) ctx w))"
    by (simp add: render_mode_effects)
qed

theorem render_miss_writes_cache_witness:
  "cache (snd (render no_templates plain_block_node empty_context example_world)) ''freetext_block''
       = Some (example_block, 0)
   \<and> fst (render no_templates plain_block_node empty_context example_world) = Inr ''CONTENT''
   \<and> cache (snd (render example_loader sixty_node empty_context example_world)) ''freetext_block''
       = Some (example_block, 60)
   \<and> cache (snd (render no_templates evaluated_node empty_context example_world)) ''freetext_block''
       = None"
proof -
  have out: "fst (render no_templates plain_block_node empty_context example_world) = Inr ''CONTENT''"
    by (simp add: render_def fetch_def real_slug_def plain_block_node_def example_world_def
          no_cache_def CACHE_PREFIX_def objects_get_def example_block_def py_int_def
          produce_def Let_def)
  have found: "objects_get (store example_world) ''block'' = Inr example_block"
    and miss: "cache example_world (CACHE_PREFIX @ ''block'') = None"
    and key: "CACHE_PREFIX @ ''block'' = ''freetext_block''"
    by (simp_all add: example_world_def no_cache_def CACHE_PREFIX_def objects_get_def
          example_block_def)
  have rs: "real_slug plain_block_node empty_context = Inr (PyStr ''block'')"
    "real_slug sixty_node empty_context = Inr (PyStr ''block'')"
    "real_slug evaluated_node empty_context = Inr (PyStr ''block'')"
    by (simp_all add: real_slug_def plain_block_node_def sixty_node_def evaluated_node_def)
  have dv: "digits_val ''60'' 0 = Some 60"
    by (simp add: digit_of_def)
  have bad: "py_int (cache_time evaluated_node) = Inl ValueError"
    by (simp add: evaluated_node_def py_int_def int_of_token_def strip_def is_space_def
          digit_of_def)
  have "cache (snd (render no_templates plain_block_node empty_context example_world))
          ''freetext_block'' = Some (example_block, 0)"
    using render_miss_writes_cache [OF rs(1) miss found, of no_templates] key
    by (simp add: plain_block_node_def)
  moreover have "cache (snd (render example_loader sixty_node empty_context example_world))
          ''freetext_block'' = Some (example_block, 60)"
    using render_miss_writes_cache [OF rs(2) miss found, of example_loader] key dv
    by (simp add: sixty_node_def)
  moreover have "cache (snd (render no_templates evaluated_node empty_context example_world))
          ''freetext_block'' = None"
    using render_miss_writes_cache [OF rs(3) miss found, of no_templates] bad
    by (simp add: example_world_def no_cache_def)
  ultimately show ?thesis using out by blast
qed

theorem plain_unwritten_counterexample:
  "do_plain_freetext [''plain_freetext'', quoted dq ''block'', ''evaluated''] = Inr evaluated_node
   \<and> cache example_world ''freetext_block'' = None
   \<and> objects_get (store example_world) ''block'' = Inr example_block
   \<and> fst (render no_templates evaluated_node empty_context example_world) = Inl ValueError
   \<and> cache (snd (render no_templates evaluated_node empty_context example_world))
       ''freetext_block'' = None"
  by (simp add: do_plain_freetext_def check_slug_def is_quoted_def unquote_def quoted_def dq_def
        mk_node_def evaluated_node_def render_def fetch_def real_slug_def example_world_def
        no_cache_def CACHE_PREFIX_def objects_get_def example_block_def py_int_def
        int_of_token_def strip_def is_space_def digit_of_def Let_def)

subsection \<open>Variables that do not resolve\<close>

lemma plain_name_chars:
  "is_letter c \<or> is_digit c \<or> c = CHR ''_'' \<Longrightarrow>
     \<not> is_space c \<and> c \<noteq> CHR ''.''"
  by (auto simp: is_letter_def is_digit_def digit_of_def is_space_def Let_def split: if_splits)

lemma letter_plain:
  "is_letter c \<Longrightarrow>
     \<not> is_digit c \<and> c \<noteq> CHR ''_'' \<and> c \<noteq> CHR ''-'' \<and> c \<noteq> CHR ''+'' \<and> c \<noteq> CHR ''.''
     \<and> c \<noteq> CHR 0x22 \<and> c \<noteq> CHR 0x27"
  by (auto simp: is_letter_def is_digit_def digit_of_def Let_def split: if_splits)

lemma no_dot_split: "CHR ''.'' \<notin> set v \<Longrightarrow> split_dots v = [v]"
  by (induction v) auto

lemma no_dot_underscore: "CHR ''.'' \<notin> set v \<Longrightarrow> \<not> contains_dot_underscore v"
  by (induction v rule: contains_dot_underscore.induct) auto

lemma letter_first_not_decimal:
  assumes "v \<noteq> []" and "is_letter (hd v)"
  shows "\<not> decimal_ok v"
proof -
  from assms obtain c cs where v: "v = c # cs" and c: "is_letter c" by (cases v) auto
  from c have nd: "\<not> is_digit c" and np: "c \<noteq> CHR ''.''" using letter_plain by blast+
  show ?thesis
  proof (cases "is_e c")
    case True
    then show ?thesis by (simp add: decimal_ok_def v mantissa_ok_def)
  next
    case False
    then have "takeWhile (\<lambda>c. \<not> is_e c) v = c # takeWhile (\<lambda>c. \<not> is_e c) cs"
      by (simp add: v)
    then show ?thesis using nd np by (simp add: decimal_ok_def mantissa_ok_def)
  qed
qed

text \<open>
  The constructor takes a plain name other than \<^verbatim>\<open>inf\<close> and \<^verbatim>\<open>infinity\<close> as
  one name to look up.
\<close>

lemma plain_name_is_looked_up:
  assumes "plain_name var" and "map lower var \<noteq> ''inf''" and "map lower var \<noteq> ''infinity''"
  shows "Variable_init var = Inr (VarLookups [var], False)"
proof -
  from assms(1) have ne: "var \<noteq> []" and l: "is_letter (hd var)"
    and all: "\<forall>c \<in> set var. is_letter c \<or> is_digit c \<or> c = CHR ''_''"
    by (simp_all add: plain_name_def list_all_iff)
  from ne have "hd var \<in> set var" and "last var \<in> set var" by simp_all
  with all have "\<not> is_space (hd var)" and "\<not> is_space (last var)"
    using plain_name_chars by blast+
  with ne have "dropWhile is_space var = var" and "dropWhile is_space (rev var) = rev var"
    by (simp_all add: dropWhile_eq_self_iff hd_rev)
  then have st: "strip var = var" by (simp add: strip_def)
  from ne l have un: "unsigned var = var"
    using letter_plain[of "hd var"] by (cases var) (auto simp: unsigned_def)
  from all have nodot: "CHR ''.'' \<notin> set var" using plain_name_chars by blast
  have nd: "\<not> decimal_ok var" using ne l by (rule letter_first_not_decimal)
  have num: "number_literal var = Inl ValueError"
  proof (cases "map lower var = ''nan''")
    case True
    then have "CHR ''e'' \<notin> set (map lower var)" by simp
    moreover have "py_float_kind var = NaN"
      using True st un by (simp add: py_float_kind_def)
    ultimately show ?thesis
      using nodot by (simp add: number_literal_def)
  next
    case False
    then have "py_float_kind var = NotFloat"
      using assms(2,3) st un nd by (simp add: py_float_kind_def)
    then show ?thesis by (simp add: number_literal_def)
  qed
  have h: "hd var \<noteq> CHR ''_''" "hd var \<noteq> CHR 0x22" "hd var \<noteq> CHR 0x27"
    using letter_plain[OF l] by simp_all
  from ne h(1) have nt: "take 2 var \<noteq> ''_(''" by (cases var) auto
  have "name_target var = Inr (VarLookups [var], False)"
    using ne nt h nodot by (simp add: name_target_def no_dot_split no_dot_underscore)
  with num show ?thesis by (simp add: Variable_init_def)
qed

text \<open>
  C7, as the code has it.  The variable lookup of line 83 is outside the \<^verbatim>\<open>try\<close>
  block, so whatever it raises leaves \<^verbatim>\<open>render\<close>, and cache and store are not
  touched.  In particular, for a variable-slug tag whose token is a plain name (other than
  \<^verbatim>\<open>inf\<close> and \<^verbatim>\<open>infinity\<close>) that the context binds nowhere, the render raises
  \<^verbatim>\<open>VariableDoesNotExist\<close>.  When the variable resolves to the empty string, and
  neither cache nor store has a record for the empty slug, the render returns the empty
  string.  No render creates a record.
\<close>

theorem render_absent_variable_raises:
  "(is_variable n \<and> real_slug n ctx = Inl e \<longrightarrow> render ld n ctx w = (Inl e, w))
   \<and> (is_variable n \<and> plain_name (slug n) \<and> map lower (slug n) \<noteq> ''inf''
        \<and> map lower (slug n) \<noteq> ''infinity'' \<and> entries ctx (slug n) = None
        \<and> other_lookups ctx [slug n] = Inl VariableDoesNotExist \<longrightarrow>
      render ld n ctx w = (Inl VariableDoesNotExist, w))
   \<and> (is_variable n \<and> real_slug n ctx = Inr (PyStr []) \<and> cache w CACHE_PREFIX = None
        \<and> [] \<notin> block_slug ` set (store w) \<longrightarrow>
      fst (render ld n ctx w) = Inr [])
   \<and> store (snd (render ld n ctx w)) = store w"
proof (intro conjI impI)
  assume "is_variable n \<and> real_slug n ctx = Inl e"
  then show "render ld n ctx w = (Inl e, w)"
    by (simp add: render_not_str)
next
  assume a: "is_variable n \<and> plain_name (slug n) \<and> map lower (slug n) \<noteq> ''inf''
        \<and> map lower (slug n) \<noteq> ''infinity'' \<and> entries ctx (slug n) = None
        \<and> other_lookups ctx [slug n] = Inl VariableDoesNotExist"
  then have "Variable_init (slug n) = Inr (VarLookups [slug n], False)"
    by (simp add: plain_name_is_looked_up)
  with a have "real_slug n ctx = Inl VariableDoesNotExist"
    by (simp add: real_slug_def Variable_resolve_def resolve_lookup_def)
  then show "render ld n ctx w = (Inl VariableDoesNotExist, w)"
    by (rule render_not_str)
next
  assume a: "is_variable n \<and> real_slug n ctx = Inr (PyStr []) \<and> cache w CACHE_PREFIX = None
        \<and> [] \<notin> block_slug ` set (store w)"
  then have "real_slug n ctx = Inr (PyStr [])" by simp
  moreover from a have "cache w (CACHE_PREFIX @ []) = None" by simp
  moreover from a have "objects_get (store w) [] = Inl DoesNotExist"
    by (simp add: objects_get_none)
  ultimately show "fst (render ld n ctx w) = Inr []"
    by (simp add: render_miss_error)
next
  show "store (snd (render ld n ctx w)) = store w" by (rule render_store)
qed

theorem render_absent_variable_raises_witness:
  "render example_loader name_node empty_context example_world
     = (Inl VariableDoesNotExist, example_world)
   \<and> fst (render example_loader name_node blank_context example_world) = Inr []"
proof -
  have id: "plain_name ''name''" "map lower ''name'' \<noteq> ''inf''"
    "map lower ''name'' \<noteq> ''infinity''"
    by (simp_all add: plain_name_def is_letter_def lower_def)
  have absent: "entries empty_context ''name'' = None"
    "other_lookups empty_context [''name''] = Inl VariableDoesNotExist"
    by (simp_all add: empty_context_def nothing_else_def)
  have blank: "real_slug name_node blank_context = Inr (PyStr [])"
    by (simp add: real_slug_def Variable_resolve_def name_is_looked_up resolve_lookup_def
          name_node_def blank_context_def)
  have w: "cache example_world CACHE_PREFIX = None"
    "[] \<notin> block_slug ` set (store example_world)"
    by (simp_all add: example_world_def no_cache_def example_block_def)
  have nv: "is_variable name_node" "slug name_node = ''name''"
    by (simp_all add: name_node_def)
  have "render example_loader name_node empty_context example_world
     = (Inl VariableDoesNotExist, example_world)"
    using render_absent_variable_raises
            [where n = name_node and ctx = empty_context and w = example_world
               and ld = example_loader]
          id absent nv
    by simp
  moreover have "fst (render example_loader name_node blank_context example_world) = Inr []"
    using render_absent_variable_raises
            [where n = name_node and ctx = blank_context and w = example_world
               and ld = example_loader]
          blank w nv
    by simp
  ultimately show ?thesis by blast
qed

theorem absent_variable_counterexample:
  "do_get_freetext [''freetext'', ''name''] = Inr name_node
   \<and> entries empty_context ''name'' = None
   \<and> fst (render example_loader name_node empty_context example_world) = Inl VariableDoesNotExist"
  by (simp add: do_get_freetext_def check_slug_def is_quoted_def mk_node_def name_node_def
        render_def real_slug_def Variable_resolve_def name_is_looked_up resolve_lookup_def
        empty_context_def nothing_else_def)

section \<open>Properties of the \<^verbatim>\<open>freetext\<close> tag parser\<close>

lemma quoted_is_quoted: "q = dq \<or> q = sq \<Longrightarrow> is_quoted (quoted q body)"
  by (auto simp: is_quoted_def quoted_def dq_def sq_def)

lemma unquote_quoted: "unquote (quoted q body) = body"
  by (simp add: unquote_def quoted_def)

lemma prepare_too_few_or_many:
  "tokens \<noteq> [] \<Longrightarrow> length tokens < 2 \<or> 3 < length tokens \<Longrightarrow>
     prepare tokens = Inl TemplateSyntaxError"
  by (cases tokens rule: prepare.cases) simp_all

text \<open>
  C2, as the code has it.  The \<^verbatim>\<open>freetext\<close> grammar is \<^verbatim>\<open>tagname SLUG [CACHE_TIME]\<close>.
  A SLUG token in matching quotes gives a literal slug with the quotes stripped; any other
  non-empty SLUG token gives a variable reference (the raw token).  The cache time is the
  integer 0 when there are two tokens and the raw third token otherwise; a token of
  decimal digits converts, at render time, to the number it spells.  The two entry points
  build the node with the wrapped and the plain mode.  There is no \<^verbatim>\<open>evaluated\<close> and
  no \<^verbatim>\<open>using\<close> option.
\<close>

theorem prepare_slug_and_cache_time:
  "(q = dq \<or> q = sq \<longrightarrow>
        prepare [tag, quoted q body] = Inr (body, False, CtInt 0)
      \<and> prepare [tag, quoted q body, ct] = Inr (body, False, CtTok ct))
   \<and> (sl \<noteq> [] \<and> \<not> is_quoted sl \<longrightarrow>
        prepare [tag, sl] = Inr (sl, True, CtInt 0)
      \<and> prepare [tag, sl, ct] = Inr (sl, True, CtTok ct))
   \<and> py_int (CtInt 0) = Inr 0
   \<and> (ds \<noteq> [] \<and> digits_val ds 0 = Some k \<longrightarrow> py_int (CtTok ds) = Inr (int k))
   \<and> (prepare tokens = Inr p \<longrightarrow>
        do_get_freetext tokens = Inr (mk_node True p)
      \<and> do_plain_freetext tokens = Inr (mk_node False p))
   \<and> (sl \<noteq> [] \<and> is_quoted sl \<longrightarrow>
        prepare [tag, sl] = Inr (unquote sl, False, CtInt 0)
      \<and> prepare [tag, sl, ct] = Inr (unquote sl, False, CtTok ct))
   \<and> prepare (tag # sl # ct # t # ts) = Inl TemplateSyntaxError"
proof (intro conjI impI)
  assume q: "q = dq \<or> q = sq"
  have ne: "quoted q body \<noteq> []" by (simp add: quoted_def)
  show "prepare [tag, quoted q body] = Inr (body, False, CtInt 0)"
    using quoted_is_quoted[OF q] ne by (simp add: check_slug_def unquote_quoted)
  show "prepare [tag, quoted q body, ct] = Inr (body, False, CtTok ct)"
    using quoted_is_quoted[OF q] ne by (simp add: check_slug_def unquote_quoted)
next
  assume "sl \<noteq> [] \<and> \<not> is_quoted sl"
  then show "prepare [tag, sl] = Inr (sl, True, CtInt 0)"
    and "prepare [tag, sl, ct] = Inr (sl, True, CtTok ct)"
    by (simp_all add: check_slug_def)
next
  show "py_int (CtInt 0) = Inr 0" by (simp add: py_int_def)
next
  assume "ds \<noteq> [] \<and> digits_val ds 0 = Some k"
  then show "py_int (CtTok ds) = Inr (int k)"
    by (simp add: py_int_def int_of_digits)
next
  assume "prepare tokens = Inr p"
  then show "do_get_freetext tokens = Inr (mk_node True p)"
    and "do_plain_freetext tokens = Inr (mk_node False p)"
    by (simp_all add: do_get_freetext_def do_plain_freetext_def)
next
  assume "sl \<noteq> [] \<and> is_quoted sl"
  then show "prepare [tag, sl] = Inr (unquote sl, False, CtInt 0)"
    and "prepare [tag, sl, ct] = Inr (unquote sl, False, CtTok ct)"
    by (simp_all add: check_slug_def)
next
  show "prepare (tag # sl # ct # t # ts) = Inl TemplateSyntaxError" by simp
qed

theorem prepare_slug_and_cache_time_witness:
  "prepare [''freetext'', quoted dq ''block'', ''123''] = Inr (''block'', False, CtTok ''123'')
   \<and> prepare [''freetext'', ''blockvar''] = Inr (''blockvar'', True, CtInt 0)
   \<and> py_int (CtTok ''123'') = Inr 123
   \<and> do_plain_freetext [''plain_freetext'', quoted sq ''block'']
       = Inr (mk_node False (''block'', False, CtInt 0))"
proof -
  have dv: "digits_val ''123'' 0 = Some 123"
    by (simp add: digit_of_def)
  have pr: "prepare [''plain_freetext'', quoted sq ''block''] = Inr (''block'', False, CtInt 0)"
    by (simp add: check_slug_def is_quoted_def unquote_def quoted_def sq_def)
  show ?thesis
    using prepare_slug_and_cache_time
            [where q = dq and body = "''block''" and tag = "''freetext''" and ct = "''123''"
               and sl = "''blockvar''" and ds = "''123''" and k = 123
               and tokens = "[''plain_freetext'', quoted sq ''block'']"
               and p = "(''block'', False, CtInt 0)"]
          dv pr
    by (simp add: is_quoted_def)
qed

theorem evaluated_option_counterexample:
  "prepare [''freetext'', quoted dq ''block'', ''123'', ''evaluated''] = Inl TemplateSyntaxError
   \<and> prepare [''freetext'', quoted dq ''block'', ''evaluated'']
       = Inr (''block'', False, CtTok ''evaluated'')"
  by (simp add: check_slug_def is_quoted_def unquote_def quoted_def dq_def)

text \<open>
  C3, as the code has it.  The parser rejects a tag by its token count alone: a non-empty
  token stream with fewer than 2 or more than 3 tokens fails with
  \<^verbatim>\<open>TemplateSyntaxError\<close> when the template is compiled.  With 2 or 3 tokens and a
  non-empty SLUG token the parse succeeds whatever the quoting of the SLUG (a token that
  is not in matching quotes is a variable reference) and whatever the CACHE_TIME token.  A
  CACHE_TIME token that \<^verbatim>\<open>int()\<close> rejects fails only at render time, with
  \<^verbatim>\<open>ValueError\<close>, when a cache miss has found the record in the store and the
  timeout of the cache write is computed.
\<close>

theorem prepare_rejects_by_token_count:
  "(tokens \<noteq> [] \<and> (length tokens < 2 \<or> 3 < length tokens) \<longrightarrow>
        prepare tokens = Inl TemplateSyntaxError)
   \<and> (sl \<noteq> [] \<longrightarrow>
        prepare [tag, sl] = Inr (if is_quoted sl then unquote sl else sl, \<not> is_quoted sl, CtInt 0)
      \<and> prepare [tag, sl, ct]
          = Inr (if is_quoted sl then unquote sl else sl, \<not> is_quoted sl, CtTok ct))
   \<and> (real_slug n ctx = Inr (PyStr S) \<and> cache w (CACHE_PREFIX @ S) = None
        \<and> objects_get (store w) S = Inr r \<and> py_int (cache_time n) = Inl ValueError \<longrightarrow>
        render ld n ctx w = (Inl ValueError, logged [CacheGet (CACHE_PREFIX @ S), StoreGet S] w))"
proof (intro conjI impI)
  assume "tokens \<noteq> [] \<and> (length tokens < 2 \<or> 3 < length tokens)"
  then show "prepare tokens = Inl TemplateSyntaxError"
    by (simp add: prepare_too_few_or_many)
next
  assume "sl \<noteq> []"
  then show "prepare [tag, sl]
      = Inr (if is_quoted sl then unquote sl else sl, \<not> is_quoted sl, CtInt 0)"
    and "prepare [tag, sl, ct]
      = Inr (if is_quoted sl then unquote sl else sl, \<not> is_quoted sl, CtTok ct)"
    by (simp_all add: check_slug_def)
next
  assume "real_slug n ctx = Inr (PyStr S) \<and> cache w (CACHE_PREFIX @ S) = None
        \<and> objects_get (store w) S = Inr r \<and> py_int (cache_time n) = Inl ValueError"
  then show "render ld n ctx w
      = (Inl ValueError, logged [CacheGet (CACHE_PREFIX @ S), StoreGet S] w)"
    by (simp add: render_miss_bad_time)
qed

theorem prepare_rejects_by_token_count_witness:
  "prepare [''freetext''] = Inl TemplateSyntaxError
   \<and> prepare [''freetext'', dq # ''block'', ''abc''] = Inr (dq # ''block'', True, CtTok ''abc'')
   \<and> fst (render example_loader abc_node empty_context example_world) = Inl ValueError"
proof -
  note inst = prepare_rejects_by_token_count
          [where tokens = "[''freetext'']" and sl = "dq # ''block''" and tag = "''freetext''"
             and ct = "''abc''" and n = abc_node and ctx = empty_context and S = "''block''"
             and w = example_world and r = example_block and ld = example_loader]
  have h: "real_slug abc_node empty_context = Inr (PyStr ''block'')
        \<and> cache example_world (CACHE_PREFIX @ ''block'') = None
        \<and> objects_get (store example_world) ''block'' = Inr example_block
        \<and> py_int (cache_time abc_node) = Inl ValueError"
    by (simp add: real_slug_def abc_node_def example_world_def no_cache_def
          CACHE_PREFIX_def objects_get_def example_block_def py_int_def int_of_token_def
          strip_def is_space_def digit_of_def)
  have "prepare [''freetext''] = Inl TemplateSyntaxError"
    using inst by simp
  moreover have "prepare [''freetext'', dq # ''block'', ''abc'']
      = Inr (dq # ''block'', True, CtTok ''abc'')"
    using inst by (simp add: is_quoted_def dq_def)
  moreover have "fst (render example_loader abc_node empty_context example_world) = Inl ValueError"
    using inst h by simp
  ultimately show ?thesis by simp
qed

theorem unvalidated_tokens_counterexample:
  "prepare [''freetext'', dq # ''block'' @ [sq]] = Inr (dq # ''block'' @ [sq], True, CtInt 0)
   \<and> do_get_freetext [''freetext'', quoted dq ''block'', ''abc''] = Inr abc_node
   \<and> fst (render example_loader abc_node empty_context example_world) = Inl ValueError"
  by (simp add: do_get_freetext_def check_slug_def is_quoted_def unquote_def quoted_def dq_def
        sq_def mk_node_def abc_node_def render_def fetch_def real_slug_def example_world_def
        no_cache_def CACHE_PREFIX_def objects_get_def example_block_def py_int_def
        int_of_token_def strip_def is_space_def digit_of_def Let_def)

section \<open>Properties of the flatblock tag and the content model\<close>

lemma find_absent:
  "s \<notin> block_slug ` set bs \<Longrightarrow> find (\<lambda>b. block_slug b = s) bs = None"
  by (auto simp: find_None_iff)

lemma find_appended:
  "s \<notin> block_slug ` set bs \<Longrightarrow> block_slug b = s \<Longrightarrow>
     find (\<lambda>x. block_slug x = s) (bs @ [b]) = Some b"
  by (induction bs) auto

lemma find_replaced:
  "block_slug b \<in> block_slug ` set bs \<Longrightarrow>
     find (\<lambda>x. block_slug x = block_slug b)
       (map (\<lambda>x. if block_slug x = block_slug b then b else x) bs) = Some b"
  by (induction bs) auto

lemma find_put_block:
  "find (\<lambda>x. block_slug x = block_slug b) (put_block b bs) = Some b"
  by (simp add: put_block_def slug_exists_def find_appended find_replaced)

lemma invalidate_fields [simp]:
  "cache (invalidate cfg s w) = (cache w)(cache_prefix cfg @ s := None)"
  "store (invalidate cfg s w) = store w"
  "log (invalidate cfg s w) = log w @ [CacheDelete (cache_prefix cfg @ s)]"
  by (simp_all add: invalidate_def)

lemma cache_put_fields [simp]:
  "cache (cache_put key r ttl w) = (cache w)(key \<mapsto> (r, ttl))"
  "store (cache_put key r ttl w) = store w"
  "log (cache_put key r ttl w) = log w @ [CacheSet key r ttl]"
  by (simp_all add: cache_put_def)

lemma save_plain:
  "save_block cfg b False False w =
     (Inr (), invalidate cfg (block_slug b)
                (logged [StoreSave b] (w\<lparr>store := put_block b (store w)\<rparr>)))"
  by (simp add: save_block_def)

lemma save_success:
  "save_block cfg b fi fu w = (Inr (), w') \<Longrightarrow>
     w' = invalidate cfg (block_slug b)
            (logged [StoreSave b] (w\<lparr>store := put_block b (store w)\<rparr>))"
  by (auto simp: save_block_def split: if_splits)

lemma lookup_hit:
  "cache w (cache_prefix cfg @ s) = Some (c, t) \<Longrightarrow>
     lookup_block cfg a s w = (Some c, logged [CacheGet (cache_prefix cfg @ s)] w)"
  by (simp add: lookup_block_def Let_def)

lemma lookup_found:
  "cache w (cache_prefix cfg @ s) = None \<Longrightarrow>
   find (\<lambda>b. block_slug b = s) (store w) = Some r \<Longrightarrow>
     lookup_block cfg a s w =
       (Some r, cache_put (cache_prefix cfg @ s) r (int (cacheTimeSeconds a))
                  (logged [CacheGet (cache_prefix cfg @ s), StoreGet s] w))"
  by (simp add: lookup_block_def Let_def)

lemma lookup_create:
  "cache w (cache_prefix cfg @ s) = None \<Longrightarrow>
   find (\<lambda>b. block_slug b = s) (store w) = None \<Longrightarrow>
   is_literal (slugSource a) \<Longrightarrow> autocreate_static_blocks cfg \<Longrightarrow>
     lookup_block cfg a s w =
       (Some (placeholder s),
        cache_put (cache_prefix cfg @ s) (placeholder s) (int (cacheTimeSeconds a))
          (snd (save_block cfg (placeholder s) False False
                  (logged [CacheGet (cache_prefix cfg @ s), StoreGet s] w))))"
  by (simp add: lookup_block_def Let_def)

lemma lookup_nothing:
  "cache w (cache_prefix cfg @ s) = None \<Longrightarrow>
   find (\<lambda>b. block_slug b = s) (store w) = None \<Longrightarrow>
   \<not> (is_literal (slugSource a) \<and> autocreate_static_blocks cfg) \<Longrightarrow>
     lookup_block cfg a s w =
       (None, logged [CacheGet (cache_prefix cfg @ s), StoreGet s] w)"
  by (simp add: lookup_block_def Let_def)

lemma flatblock_render_slug:
  "resolve_slug (slugSource a) ctx = Some s \<Longrightarrow>
     flatblock_render cfg ld ev wrapped a ctx w =
       (case lookup_block cfg a s w of
          (None, w') \<Rightarrow> (Inr [], w')
        | (Some r, w') \<Rightarrow> (present_block ld ev wrapped a ctx r, w'))"
  by (simp add: flatblock_render_def)

lemma placeholder_fields [simp]:
  "block_slug (placeholder s) = s"
  "block_header (placeholder s) = []"
  "block_content (placeholder s) = s"
  by (simp_all add: placeholder_def)

lemma put_new: "s \<notin> block_slug ` set bs \<Longrightarrow> block_slug b = s \<Longrightarrow> put_block b bs = bs @ [b]"
  by (simp add: put_block_def slug_exists_def)

text \<open>
  C4 (on the render algorithm as the specification gives it).  A literal-slug tag whose
  slug \<open>S\<close> has no cache entry and no record: with auto-creation on, the render adds
  exactly one record to the store, the placeholder with slug \<open>S\<close>, an empty header and
  content \<open>S\<close>; its output is the presentation of that placeholder (in plain mode, not
  evaluated, the text \<open>S\<close> itself); and a second render of the same tag leaves the store
  as the first one left it.  With auto-creation off, the render returns the empty string
  and the store is unchanged.
\<close>

theorem autocreate_exactly_once:
  assumes "slugSource a = Literal S"
      and "cache w (cache_prefix cfg @ S) = None"
      and "S \<notin> block_slug ` set (store w)"
  shows "(autocreate_static_blocks cfg \<longrightarrow>
            store (snd (flatblock_render cfg ld ev wrapped a ctx w)) = store w @ [placeholder S]
          \<and> fst (flatblock_render cfg ld ev wrapped a ctx w)
              = present_block ld ev wrapped a ctx (placeholder S)
          \<and> (\<not> wrapped \<and> \<not> evaluated a \<longrightarrow>
               fst (flatblock_render cfg ld ev wrapped a ctx w) = Inr S)
          \<and> store (snd (flatblock_render cfg ld ev wrapped a ctx
                           (snd (flatblock_render cfg ld ev wrapped a ctx w))))
              = store w @ [placeholder S]
          \<and> fst (flatblock_render cfg ld ev wrapped a ctx
                           (snd (flatblock_render cfg ld ev wrapped a ctx w)))
              = fst (flatblock_render cfg ld ev wrapped a ctx w))
     \<and> (\<not> autocreate_static_blocks cfg \<longrightarrow>
            fst (flatblock_render cfg ld ev wrapped a ctx w) = Inr []
          \<and> store (snd (flatblock_render cfg ld ev wrapped a ctx w)) = store w)"
proof -
  have rs: "resolve_slug (slugSource a) ctx = Some S"
    using assms(1) by (simp add: resolve_slug_def)
  have lit: "is_literal (slugSource a)"
    using assms(1) by (simp add: is_literal_def)
  have nf: "find (\<lambda>b. block_slug b = S) (store w) = None"
    using assms(3) by (rule find_absent)
  let ?key = "cache_prefix cfg @ S"
  let ?ttl = "int (cacheTimeSeconds a)"
  let ?w1 = "cache_put ?key (placeholder S) ?ttl
               (snd (save_block cfg (placeholder S) False False
                       (logged [CacheGet ?key, StoreGet S] w)))"
  have on: "flatblock_render cfg ld ev wrapped a ctx w
              = (present_block ld ev wrapped a ctx (placeholder S), ?w1)"
    if "autocreate_static_blocks cfg"
    using that assms(2) nf lit by (simp add: flatblock_render_slug[OF rs] lookup_create)
  have st1: "store ?w1 = store w @ [placeholder S]"
    using assms(3) by (simp add: save_plain put_new)
  have c1: "cache ?w1 ?key = Some (placeholder S, ?ttl)"
    by simp
  have second: "flatblock_render cfg ld ev wrapped a ctx ?w1
              = (present_block ld ev wrapped a ctx (placeholder S),
                 logged [CacheGet ?key] ?w1)"
    using c1 by (simp add: flatblock_render_slug[OF rs] lookup_hit)
  have off: "flatblock_render cfg ld ev wrapped a ctx w
              = (Inr [], logged [CacheGet ?key, StoreGet S] w)"
    if "\<not> autocreate_static_blocks cfg"
    using that assms(2) nf by (simp add: flatblock_render_slug[OF rs] lookup_nothing)
  have plain: "present_block ld ev wrapped a ctx (placeholder S) = Inr S"
    if "\<not> wrapped \<and> \<not> evaluated a"
    using that by (simp add: present_block_def)
  show ?thesis
  proof (intro conjI impI)
    assume ac: "autocreate_static_blocks cfg"
    show "store (snd (flatblock_render cfg ld ev wrapped a ctx w)) = store w @ [placeholder S]"
      using on[OF ac] st1 by simp
    show "fst (flatblock_render cfg ld ev wrapped a ctx w)
              = present_block ld ev wrapped a ctx (placeholder S)"
      using on[OF ac] by simp
    show "fst (flatblock_render cfg ld ev wrapped a ctx w) = Inr S"
      if "\<not> wrapped \<and> \<not> evaluated a"
      using on[OF ac] plain[OF that] by simp
    show "store (snd (flatblock_render cfg ld ev wrapped a ctx
                           (snd (flatblock_render cfg ld ev wrapped a ctx w))))
              = store w @ [placeholder S]"
      using on[OF ac] second st1 by simp
    show "fst (flatblock_render cfg ld ev wrapped a ctx
                           (snd (flatblock_render cfg ld ev wrapped a ctx w)))
              = fst (flatblock_render cfg ld ev wrapped a ctx w)"
      using on[OF ac] second by simp
  next
    assume nac: "\<not> autocreate_static_blocks cfg"
    show "fst (flatblock_render cfg ld ev wrapped a ctx w) = Inr []"
      using off[OF nac] by simp
    show "store (snd (flatblock_render cfg ld ev wrapped a ctx w)) = store w"
      using off[OF nac] by simp
  qed
qed

theorem autocreate_exactly_once_witness:
  "store (snd (flatblock_render autocreate_on no_templates verbatim False foo_args empty_context
                 empty_world)) = [placeholder ''foo'']
   \<and> fst (flatblock_render autocreate_on no_templates verbatim False foo_args empty_context
            empty_world) = Inr ''foo''
   \<and> store (snd (flatblock_render autocreate_on no_templates verbatim False foo_args empty_context
                 (snd (flatblock_render autocreate_on no_templates verbatim False foo_args
                         empty_context empty_world)))) = [placeholder ''foo'']
   \<and> fst (flatblock_render autocreate_off no_templates verbatim False foo_args empty_context
            empty_world) = Inr []
   \<and> store (snd (flatblock_render autocreate_off no_templates verbatim False foo_args empty_context
                 empty_world)) = []"
proof -
  have h: "slugSource foo_args = Literal ''foo''"
    "cache empty_world (cache_prefix autocreate_on @ ''foo'') = None"
    "cache empty_world (cache_prefix autocreate_off @ ''foo'') = None"
    "''foo'' \<notin> block_slug ` set (store empty_world)"
    by (simp_all add: foo_args_def empty_world_def no_cache_def)
  have ev: "\<not> evaluated foo_args" "autocreate_static_blocks autocreate_on"
    "\<not> autocreate_static_blocks autocreate_off" "store empty_world = []"
    by (simp_all add: foo_args_def autocreate_on_def autocreate_off_def empty_world_def)
  note on = autocreate_exactly_once
            [OF h(1) h(2) h(4), where ld = no_templates and ev = verbatim and wrapped = False
               and ctx = empty_context, THEN conjunct1, rule_format, OF ev(2)]
  note off = autocreate_exactly_once
            [OF h(1) h(3) h(4), where ld = no_templates and ev = verbatim and wrapped = False
               and ctx = empty_context, THEN conjunct2, rule_format, OF ev(3)]
  have "store (snd (flatblock_render autocreate_on no_templates verbatim False foo_args
                      empty_context empty_world)) = [placeholder ''foo'']"
    using on ev(4) by simp
  moreover have "fst (flatblock_render autocreate_on no_templates verbatim False foo_args
                        empty_context empty_world) = Inr ''foo''"
    using on ev(1) by blast
  moreover have "store (snd (flatblock_render autocreate_on no_templates verbatim False foo_args
                 empty_context
                 (snd (flatblock_render autocreate_on no_templates verbatim False foo_args
                         empty_context empty_world)))) = [placeholder ''foo'']"
    using on ev(4) by simp
  moreover have "fst (flatblock_render autocreate_off no_templates verbatim False foo_args
                        empty_context empty_world) = Inr []"
    using off by blast
  moreover have "store (snd (flatblock_render autocreate_off no_templates verbatim False foo_args
                        empty_context empty_world)) = []"
    using off ev(4) by simp
  ultimately show ?thesis by blast
qed

lemma render_after_miss_found:
  assumes "resolve_slug (slugSource a) ctx = Some s"
      and "cache w (cache_prefix cfg @ s) = None"
      and "find (\<lambda>b. block_slug b = s) (store w) = Some r"
  shows "flatblock_render cfg ld ev wrapped a ctx w =
           (present_block ld ev wrapped a ctx r,
            cache_put (cache_prefix cfg @ s) r (int (cacheTimeSeconds a))
              (logged [CacheGet (cache_prefix cfg @ s), StoreGet s] w))"
  using assms by (simp add: flatblock_render_slug lookup_found)

lemma render_miss_queries_store:
  assumes "resolve_slug (slugSource a) ctx = Some s"
      and "cache w (cache_prefix cfg @ s) = None"
  shows "\<exists>rest. log (snd (flatblock_render cfg ld ev wrapped a ctx w))
           = log w @ CacheGet (cache_prefix cfg @ s) # StoreGet s # rest"
proof (cases "find (\<lambda>b. block_slug b = s) (store w)")
  case (Some r)
  with assms show ?thesis by (simp add: render_after_miss_found)
next
  case None
  show ?thesis
  proof (cases "is_literal (slugSource a) \<and> autocreate_static_blocks cfg")
    case True
    with assms None show ?thesis
      by (simp add: flatblock_render_slug lookup_create save_plain)
  next
    case False
    with assms None show ?thesis
      by (simp add: flatblock_render_slug lookup_nothing)
  qed
qed

text \<open>
  C5 (on the content model as the specification gives it).  After a successful save of a
  record \<open>b\<close>, and after a delete of it, the cache has no entry under
  \<open>prefix + slug\<close>.  The next render of a tag for that slug therefore asks the cache,
  misses, and queries the store; after a save its output is the presentation of the saved
  record \<open>b\<close>, whatever the cache held before.
\<close>

theorem save_and_delete_invalidate:
  "(save_block cfg b fi fu w = (Inr (), w') \<longrightarrow>
        cache w' (cache_prefix cfg @ block_slug b) = None
      \<and> (resolve_slug (slugSource a) ctx = Some (block_slug b) \<longrightarrow>
            fst (flatblock_render cfg ld ev wrapped a ctx w') = present_block ld ev wrapped a ctx b
          \<and> (\<exists>rest. log (snd (flatblock_render cfg ld ev wrapped a ctx w'))
                = log w' @ CacheGet (cache_prefix cfg @ block_slug b)
                      # StoreGet (block_slug b) # rest)))
   \<and> cache (delete_block cfg b w) (cache_prefix cfg @ block_slug b) = None
   \<and> (resolve_slug (slugSource a) ctx = Some (block_slug b) \<longrightarrow>
        (\<exists>rest. log (snd (flatblock_render cfg ld ev wrapped a ctx (delete_block cfg b w)))
                = log (delete_block cfg b w) @ CacheGet (cache_prefix cfg @ block_slug b)
                      # StoreGet (block_slug b) # rest))"
proof (intro conjI impI)
  assume sv: "save_block cfg b fi fu w = (Inr (), w')"
  note w' = save_success[OF sv]
  show miss: "cache w' (cache_prefix cfg @ block_slug b) = None"
    by (simp add: w')
  have found: "find (\<lambda>x. block_slug x = block_slug b) (store w') = Some b"
    by (simp add: w' find_put_block)
  assume rs: "resolve_slug (slugSource a) ctx = Some (block_slug b)"
  show "fst (flatblock_render cfg ld ev wrapped a ctx w') = present_block ld ev wrapped a ctx b"
    by (simp add: render_after_miss_found[OF rs miss found])
  show "\<exists>rest. log (snd (flatblock_render cfg ld ev wrapped a ctx w'))
                = log w' @ CacheGet (cache_prefix cfg @ block_slug b)
                      # StoreGet (block_slug b) # rest"
    using rs miss by (rule render_miss_queries_store)
next
  show del: "cache (delete_block cfg b w) (cache_prefix cfg @ block_slug b) = None"
    by (simp add: delete_block_def)
  assume rs: "resolve_slug (slugSource a) ctx = Some (block_slug b)"
  show "\<exists>rest. log (snd (flatblock_render cfg ld ev wrapped a ctx (delete_block cfg b w)))
                = log (delete_block cfg b w) @ CacheGet (cache_prefix cfg @ block_slug b)
                      # StoreGet (block_slug b) # rest"
    using rs del by (rule render_miss_queries_store)
qed

theorem save_and_delete_invalidate_witness:
  "cache flat_cached_world ''flatblocks_block'' = Some (example_block, 60)
   \<and> cache (snd (save_block autocreate_off updated_block False False flat_cached_world))
       ''flatblocks_block'' = None
   \<and> fst (flatblock_render autocreate_off no_templates verbatim False block_args empty_context
            (snd (save_block autocreate_off updated_block False False flat_cached_world)))
       = present_block no_templates verbatim False block_args empty_context updated_block
   \<and> cache (delete_block autocreate_off example_block flat_cached_world)
       ''flatblocks_block'' = None"
proof -
  have sv: "save_block autocreate_off updated_block False False flat_cached_world
      = (Inr (), snd (save_block autocreate_off updated_block False False flat_cached_world))"
    by (simp add: save_plain)
  have rs: "resolve_slug (slugSource block_args) empty_context = Some (block_slug updated_block)"
    by (simp add: resolve_slug_def block_args_def updated_block_def)
  have key: "cache_prefix autocreate_off @ block_slug updated_block = ''flatblocks_block''"
    "cache_prefix autocreate_off @ block_slug example_block = ''flatblocks_block''"
    by (simp_all add: autocreate_off_def updated_block_def example_block_def)
  note inst = save_and_delete_invalidate
      [where cfg = autocreate_off and b = updated_block and fi = False and fu = False
         and w = flat_cached_world and a = block_args and ctx = empty_context
         and ld = no_templates and ev = verbatim and wrapped = False
         and w' = "snd (save_block autocreate_off updated_block False False flat_cached_world)"]
  note inst2 = save_and_delete_invalidate
      [where cfg = autocreate_off and b = example_block and w = flat_cached_world]
  have "cache flat_cached_world ''flatblocks_block'' = Some (example_block, 60)"
    by (simp add: flat_cached_world_def)
  moreover have "cache (snd (save_block autocreate_off updated_block False False flat_cached_world))
       ''flatblocks_block'' = None"
    using inst sv key(1) by simp
  moreover have "fst (flatblock_render autocreate_off no_templates verbatim False block_args
            empty_context
            (snd (save_block autocreate_off updated_block False False flat_cached_world)))
       = present_block no_templates verbatim False block_args empty_context updated_block"
    using inst sv rs by blast
  moreover have "cache (delete_block autocreate_off example_block flat_cached_world)
       ''flatblocks_block'' = None"
    using inst2 key(2) by simp
  ultimately show ?thesis by blast
qed

text \<open>
  C8 (on the content model as the specification gives it).  A save with force-update of a
  record whose slug has no row fails with \<^verbatim>\<open>ValueError\<close>; a save with force-insert
  of a record whose slug already has a row fails with the store's integrity error; a save
  with both hints fails with \<^verbatim>\<open>ValueError\<close>.  Each failure is the result the
  caller gets, and the world is left as it was.
\<close>

theorem save_rejects_contradictory_hints:
  "(\<not> slug_exists (block_slug b) (store w) \<longrightarrow>
        save_block cfg b False True w = (Inl ValueError, w))
   \<and> (slug_exists (block_slug b) (store w) \<longrightarrow>
        save_block cfg b True False w = (Inl IntegrityError, w))
   \<and> save_block cfg b True True w = (Inl ValueError, w)"
  by (simp add: save_block_def)

theorem save_rejects_contradictory_hints_witness:
  "save_block autocreate_off missing_block False True example_world = (Inl ValueError, example_world)
   \<and> save_block autocreate_off example_block True False example_world
       = (Inl IntegrityError, example_world)"
proof -
  have "\<not> slug_exists (block_slug missing_block) (store example_world)"
    and "slug_exists (block_slug example_block) (store example_world)"
    by (simp_all add: slug_exists_def missing_block_def example_world_def example_block_def)
  then show ?thesis
    using save_rejects_contradictory_hints
            [where b = missing_block and w = example_world and cfg = autocreate_off]
          save_rejects_contradictory_hints
            [where b = example_block and w = example_world and cfg = autocreate_off]
    by blast
qed

end
